theory Spec2Isabelle
  imports Complex_Main "HOL-Library.AList" "HOL-Library.Sublist" "HOL-Library.Multiset"
begin

section \<open>JavaScript values and string helpers\<close>

text \<open>
  Discord identities are snowflakes that the bot keeps as strings end to end.
  Strings are byte lists; the few non-ASCII characters of the bot's messages are
  written as their UTF-8 bytes. Timestamps are instants in milliseconds since the
  Unix epoch, as \<^verbatim>\<open>Date.now()\<close> returns them.
\<close>

type_synonym user_id = string

datatype js_error = Error string | TypeError string | RangeError string

fun error_message :: "js_error \<Rightarrow> string" where
  "error_message (Error m) = m"
| "error_message (TypeError m) = m"
| "error_message (RangeError m) = m"

definition digitChar :: "nat \<Rightarrow> char" where
  "digitChar d = ''0123456789'' ! d"

fun showNat :: "nat \<Rightarrow> string" where
  "showNat n = (if n < 10 then [digitChar n] else showNat (n div 10) @ [digitChar (n mod 10)])"

declare showNat.simps [simp del]

text \<open>
  A number of the runtime is an IEEE 754 double. An integer of the model stands for the
  double nearest to it (ties to the even significand), which is the integer itself up to
  \<open>2 ^ 53\<close>; from \<open>2 ^ 1024 - 2 ^ 970\<close> on the nearest double is \<^verbatim>\<open>Infinity\<close>.
  \<^verbatim>\<open>String(n)\<close> and template interpolation print a number by \<^verbatim>\<open>Number::toString\<close>: the
  shortest decimal digits \<open>s\<close> and the exponent \<open>n\<close> with \<open>s * 10 ^ (n - k)\<close> rounding to the
  number (the closest such \<open>s\<close>, the even one on a tie), written out with trailing zeros up
  to 21 digits and in exponent notation from \<open>1e21\<close> on.
\<close>

function showDigits :: "int \<Rightarrow> string" where
  "showDigits i = (if i < 10 then [digitChar (nat i)]
                   else showDigits (i div 10) @ [digitChar (nat (i mod 10))])"
  by auto

termination showDigits
  by (relation "measure nat") auto

declare showDigits.simps [simp del]

function bitLength :: "int \<Rightarrow> nat" where
  "bitLength m = (if m \<le> 0 then 0 else Suc (bitLength (m div 2)))"
  by auto

termination bitLength
  by (relation "measure nat") auto

declare bitLength.simps [simp del]

definition roundDouble :: "int \<Rightarrow> int" where
  \<comment> \<open>the double nearest to a non-negative integer, as an integer\<close>
  "roundDouble m =
     (if m < 2 ^ 53 then m
      else let e = bitLength m - 53;
               q = m div 2 ^ e;
               r = m mod 2 ^ e;
               h = 2 ^ (e - 1)
           in (if h < r \<or> (r = h \<and> odd q) then q + 1 else q) * 2 ^ e)"

definition digitCandidates :: "int \<Rightarrow> nat \<Rightarrow> nat \<Rightarrow> (int \<times> nat) list" where
  \<comment> \<open>the \<open>k\<close>-digit numbers \<open>s\<close> next to \<open>x / 10 ^ (n - k)\<close> with \<open>s * 10 ^ (n - k)\<close> rounding to \<open>x\<close>\<close>
  "digitCandidates x k n =
     (if n < k then []
      else let p = 10 ^ (n - k)
           in filter (\<lambda>(s, _). 10 ^ (k - 1) \<le> s \<and> s < 10 ^ k \<and> roundDouble (s * p) = x)
                [(x div p, n), (x div p + 1, n)])"

definition closerDigits :: "int \<Rightarrow> nat \<Rightarrow> int \<times> nat \<Rightarrow> int \<times> nat \<Rightarrow> int \<times> nat" where
  "closerDigits x k a b =
     (let da = \<bar>fst a * 10 ^ (snd a - k) - x\<bar>;
          db = \<bar>fst b * 10 ^ (snd b - k) - x\<bar>
      in if db < da \<or> (db = da \<and> even (fst b) \<and> odd (fst a)) then b else a)"

fun shortestDigits :: "int \<Rightarrow> nat \<Rightarrow> nat \<Rightarrow> (int \<times> nat) option" where
  \<comment> \<open>the digits \<open>s\<close> and the exponent \<open>n\<close> for the least number of digits from \<open>k\<close> on\<close>
  "shortestDigits x k 0 = None"
| "shortestDigits x k (Suc fuel) =
     (case digitCandidates x k (length (showDigits x))
           @ digitCandidates x k (length (showDigits x) + 1) of
        [] \<Rightarrow> shortestDigits x (k + 1) fuel
      | c # cs \<Rightarrow> Some (foldl (closerDigits x k) c cs))"

definition Number_toString :: "int \<Rightarrow> string" where
  \<comment> \<open>\<^verbatim>\<open>Number::toString\<close> of the double nearest to a non-negative integer; 17 digits always suffice\<close>
  "Number_toString m =
     (if m < 2 ^ 53 then showDigits m
      else let x = roundDouble m
           in if 2 ^ 1024 \<le> x then ''Infinity''
              else case shortestDigits x 1 17 of
                     None \<Rightarrow> showDigits x
                   | Some (s, n) \<Rightarrow>
                       let ds = showDigits s
                       in if n \<le> 21 then ds @ replicate (n - length ds) CHR ''0''
                          else (case ds of
                                  [] \<Rightarrow> []
                                | d # rest \<Rightarrow> if rest = [] then [d] else d # CHR ''.'' # rest)
                               @ ''e+'' @ showNat (n - 1))"

definition String_int :: "int \<Rightarrow> string" where
  \<comment> \<open>\<^verbatim>\<open>String(n)\<close> and template interpolation of an integer-valued number\<close>
  "String_int i = (if i < 0 then ''-'' @ Number_toString (- i) else Number_toString i)"

definition padStart :: "nat \<Rightarrow> string \<Rightarrow> string" where
  "padStart n s = replicate (n - length s) CHR '' '' @ s"

definition padEnd :: "nat \<Rightarrow> string \<Rightarrow> string" where
  "padEnd n s = s @ replicate (n - length s) CHR '' ''"

definition padZero :: "nat \<Rightarrow> nat \<Rightarrow> string" where
  "padZero n k = replicate (n - length (showNat k)) CHR ''0'' @ showNat k"

definition substring0 :: "nat \<Rightarrow> string \<Rightarrow> string" where
  \<comment> \<open>\<^verbatim>\<open>s.substring(0, n)\<close>\<close>
  "substring0 n s = take n s"

definition str_includes :: "string \<Rightarrow> string \<Rightarrow> bool" where
  \<comment> \<open>\<^verbatim>\<open>s.includes(pat)\<close>\<close>
  "str_includes s pat = sublist pat s"

fun split_on :: "char \<Rightarrow> string \<Rightarrow> string list" where
  "split_on c [] = [[]]"
| "split_on c (x # xs) =
     (if x = c then [] # split_on c xs
      else (case split_on c xs of [] \<Rightarrow> [[x]] | p # ps \<Rightarrow> (x # p) # ps))"

fun join :: "string \<Rightarrow> string list \<Rightarrow> string" where
  "join sep [] = []"
| "join sep [x] = x"
| "join sep (x # y # ys) = x @ sep @ join sep (y # ys)"

definition newline :: string where
  "newline = [CHR 0x0A]"

subsection \<open>Dates\<close>

text \<open>
  A \<^verbatim>\<open>Date\<close> holds a time value, an instant within 8.64e15 milliseconds of the epoch, or
  is an Invalid Date. \<^verbatim>\<open>new Date()\<close> holds the time value the clock reads;
  \<^verbatim>\<open>new Date(v)\<close> is an Invalid Date when the instant \<open>v\<close> denotes is beyond that range.
  \<^verbatim>\<open>Date.prototype.toISOString\<close> throws a \<^verbatim>\<open>RangeError\<close> on an Invalid Date; on a time
  value it gives the proleptic Gregorian calendar date in UTC,
  \<^verbatim>\<open>YYYY-MM-DDTHH:mm:ss.sssZ\<close>, with the signed six-digit year outside 0..9999.
\<close>

definition in_date_range :: "int \<Rightarrow> bool" where
  "in_date_range t = (- 8640000000000000 \<le> t \<and> t \<le> 8640000000000000)"

typedef time_value = "{t :: int. - 8640000000000000 \<le> t \<and> t \<le> 8640000000000000}"
  morphisms ms_of Abs_time_value
  by (rule exI [of _ 0]) simp

setup_lifting type_definition_time_value

lift_definition time_value_of :: "int \<Rightarrow> time_value" is
  "\<lambda>t. if - 8640000000000000 \<le> t \<and> t \<le> 8640000000000000 then t else 0"
  by simp

datatype js_date = InvalidDate | DateValue time_value

definition newDate :: "int \<Rightarrow> js_date" where
  \<comment> \<open>\<^verbatim>\<open>new Date(v)\<close> for a value that denotes the instant \<open>t\<close>\<close>
  "newDate t = (if in_date_range t then DateValue (time_value_of t) else InvalidDate)"

definition civil_from_days :: "int \<Rightarrow> int \<times> nat \<times> nat" where
  "civil_from_days z0 =
     (let z = z0 + 719468;
          era = z div 146097;
          doe = z mod 146097;
          yoe = (doe - doe div 1460 + doe div 36524 - doe div 146096) div 365;
          doy = doe - (365 * yoe + yoe div 4 - yoe div 100);
          mp = (5 * doy + 2) div 153;
          d = doy - (153 * mp + 2) div 5 + 1;
          m = (if mp < 10 then mp + 3 else mp - 9);
          y = yoe + era * 400 + (if m \<le> 2 then 1 else 0)
      in (y, nat m, nat d))"

definition yearString :: "int \<Rightarrow> string" where
  "yearString y =
     (if 0 \<le> y \<and> y \<le> 9999 then padZero 4 (nat y)
      else (if y < 0 then ''-'' else ''+'') @ padZero 6 (nat \<bar>y\<bar>))"

definition isoFormat :: "int \<Rightarrow> string" where
  "isoFormat t =
     (let msOfDay = t mod 86400000 in
      case civil_from_days (t div 86400000) of (y, m, d) \<Rightarrow>
        yearString y @ ''-'' @ padZero 2 m @ ''-'' @ padZero 2 d @ ''T''
        @ padZero 2 (nat (msOfDay div 3600000)) @ '':''
        @ padZero 2 (nat (msOfDay div 60000 mod 60)) @ '':''
        @ padZero 2 (nat (msOfDay div 1000 mod 60)) @ ''.''
        @ padZero 3 (nat (msOfDay mod 1000)) @ ''Z'')"

definition toISOString :: "js_date \<Rightarrow> js_error + string" where
  "toISOString d =
     (case d of
        InvalidDate \<Rightarrow> Inl (RangeError ''Invalid time value'')
      | DateValue tv \<Rightarrow> Inr (isoFormat (ms_of tv)))"

definition isoDatePart :: "string \<Rightarrow> string" where
  \<comment> \<open>\<^verbatim>\<open>iso.split('T')[0]\<close>; an absent element interpolates as \<^verbatim>\<open>undefined\<close>\<close>
  "isoDatePart str = (case split_on CHR ''T'' str of [] \<Rightarrow> ''undefined'' | p # _ \<Rightarrow> p)"

definition isoTimePart :: "string \<Rightarrow> js_error + string" where
  \<comment> \<open>\<^verbatim>\<open>iso.split('T')[1].substring(0, 5)\<close>; reading a property of \<^verbatim>\<open>undefined\<close> throws\<close>
  "isoTimePart str =
     (case split_on CHR ''T'' str of
        _ # q # _ \<Rightarrow> Inr (substring0 5 q)
      | _ \<Rightarrow> Inl (TypeError ''Cannot read properties of undefined (reading 'substring')''))"

section \<open>Data model of the ledger\<close>

datatype action_type = ADD | REMOVE

text \<open>The JSON object returned by the \<^verbatim>\<open>modify_points\<close> procedure; a history row carries
  the same two columns.\<close>

record points_snapshot =
  before_points :: int
  after_points :: int

record history_record = points_snapshot +
  record_id :: nat
  target_user_id :: user_id
  action_by_user_id :: user_id
  action_type :: action_type
  amount :: int
  reason :: "string option"
  created_at :: int

record ledger =
  staff_points :: "(user_id \<times> int) list"
  points_history :: "history_record list"

section \<open>The PostgREST client as the service layer uses it\<close>

record pg_error =
  code :: string
  message :: string

datatype 'a response = Response (data: "'a option") (error: "pg_error option")

definition pg_eq :: "('r \<Rightarrow> 'k) \<Rightarrow> 'k \<Rightarrow> 'r list \<Rightarrow> 'r list" where
  \<comment> \<open>\<^verbatim>\<open>.eq(column, value)\<close>\<close>
  "pg_eq col v rows = filter (\<lambda>r. col r = v) rows"

definition pg_order :: "('r \<Rightarrow> 'k::linorder) \<Rightarrow> bool \<Rightarrow> 'r list \<Rightarrow> 'r list" where
  \<comment> \<open>\<^verbatim>\<open>.order(column, { ascending })\<close>\<close>
  "pg_order col ascending rows = (if ascending then sort_key col rows else rev (sort_key col rows))"

definition pg_single :: "'r list \<Rightarrow> 'r response" where
  \<comment> \<open>\<^verbatim>\<open>.single()\<close>: exactly one row, or error \<^verbatim>\<open>PGRST116\<close>\<close>
  "pg_single rows =
     (case rows of
        [r] \<Rightarrow> Response (Some r) None
      | _ \<Rightarrow> Response None
               (Some \<lparr>code = ''PGRST116'',
                      message = ''JSON object requested, multiple (or no) rows returned''\<rparr>))"

record rpc_args =
  p_target_user_id :: user_id
  p_action_by_user_id :: user_id
  p_action_type :: action_type
  p_amount :: int
  p_allow_negative :: bool
  p_reason :: "string option"

record balance_change =
  before :: int
  after :: int

section \<open>Database service layer (src/services/database.js)\<close>

text \<open>
  The store is a parameter of every service function: \<open>from_staff_points\<close> and
  \<open>from_points_history\<close> read a table (or report that the store cannot be reached),
  \<open>rpc\<close> is the remote call of \<^verbatim>\<open>modify_points\<close>, which returns the response and
  the store it leaves behind. Diagnostics written to the console are not modelled.
\<close>

definition getUserPoints ::
  "('s \<Rightarrow> pg_error + (user_id \<times> int) list) \<Rightarrow> user_id \<Rightarrow> 's \<Rightarrow> js_error + int" where
  "getUserPoints from_staff_points userId db =
     (case (case from_staff_points db of
              Inl e \<Rightarrow> Response None (Some e)
            | Inr rows \<Rightarrow> pg_single (map snd (pg_eq fst userId rows))) of
        Response d (Some e) \<Rightarrow>
          if code e = ''PGRST116'' then Inr 0
          else Inl (Error ''Failed to fetch user points'')
      | Response d None \<Rightarrow>
          Inr (case d of None \<Rightarrow> 0 | Some p \<Rightarrow> if p \<noteq> 0 then p else 0))"

definition rpc_message :: "pg_error \<Rightarrow> string \<Rightarrow> string" where
  \<comment> \<open>\<^verbatim>\<open>error.message || fallback\<close>\<close>
  "rpc_message e fallback = (if message e \<noteq> [] then message e else fallback)"

definition addPoints_result :: "points_snapshot response \<Rightarrow> js_error + balance_change" where
  \<comment> \<open>what \<open>addPoints\<close> makes of the response of the remote call\<close>
  "addPoints_result resp =
     (case resp of
        Response d (Some e) \<Rightarrow> Inl (Error (rpc_message e ''Failed to add points''))
      | Response None None \<Rightarrow>
          Inl (TypeError ''Cannot read properties of null (reading 'before_points')'')
      | Response (Some d) None \<Rightarrow> Inr \<lparr>before = before_points d, after = after_points d\<rparr>)"

definition addPoints ::
  "(rpc_args \<Rightarrow> 's \<Rightarrow> points_snapshot response \<times> 's) \<Rightarrow>
   user_id \<Rightarrow> user_id \<Rightarrow> int \<Rightarrow> string option \<Rightarrow> 's \<Rightarrow> (js_error + balance_change) \<times> 's" where
  "addPoints rpc targetUserId actionByUserId amt rsn db =
     (if amt \<le> 0 then (Inl (Error ''Amount must be positive''), db)
      else
        case rpc \<lparr>p_target_user_id = targetUserId, p_action_by_user_id = actionByUserId,
                  p_action_type = ADD, p_amount = amt, p_allow_negative = False,
                  p_reason = rsn\<rparr> db of
          (resp, db') \<Rightarrow> (addPoints_result resp, db'))"

definition removePoints_result :: "points_snapshot response \<Rightarrow> js_error + balance_change" where
  \<comment> \<open>what \<open>removePoints\<close> makes of the response of the remote call\<close>
  "removePoints_result resp =
     (case resp of
        Response d (Some e) \<Rightarrow>
          if message e \<noteq> [] \<and> str_includes (message e) ''Insufficient points''
          then Inl (Error (message e))
          else Inl (Error (rpc_message e ''Failed to remove points''))
      | Response None None \<Rightarrow>
          Inl (TypeError ''Cannot read properties of null (reading 'before_points')'')
      | Response (Some d) None \<Rightarrow> Inr \<lparr>before = before_points d, after = after_points d\<rparr>)"

definition removePoints ::
  "(rpc_args \<Rightarrow> 's \<Rightarrow> points_snapshot response \<times> 's) \<Rightarrow>
   user_id \<Rightarrow> user_id \<Rightarrow> int \<Rightarrow> bool \<Rightarrow> string option \<Rightarrow> 's \<Rightarrow>
   (js_error + balance_change) \<times> 's" where
  "removePoints rpc targetUserId actionByUserId amt allowNegative rsn db =
     (if amt \<le> 0 then (Inl (Error ''Amount must be positive''), db)
      else
        case rpc \<lparr>p_target_user_id = targetUserId, p_action_by_user_id = actionByUserId,
                  p_action_type = REMOVE, p_amount = amt, p_allow_negative = allowNegative,
                  p_reason = rsn\<rparr> db of
          (resp, db') \<Rightarrow> (removePoints_result resp, db'))"

definition getPointsHistory ::
  "('s \<Rightarrow> pg_error + history_record list) \<Rightarrow> user_id \<Rightarrow> 's \<Rightarrow> js_error + history_record list" where
  "getPointsHistory from_points_history userId db =
     (case from_points_history db of
        Inl e \<Rightarrow> Inl (Error ''Failed to fetch points history'')
      | Inr rows \<Rightarrow> Inr (pg_order created_at False (pg_eq target_user_id userId rows)))"

section \<open>The stored procedure and the tables\<close>

definition balance_of :: "ledger \<Rightarrow> user_id \<Rightarrow> int" where
  \<comment> \<open>Modelled from the spec: the balance the procedure reads, 0 for an identity without a row\<close>
  "balance_of l u = (case map_of (staff_points l) u of None \<Rightarrow> 0 | Some p \<Rightarrow> p)"

text \<open>
  Modelled from the spec: the PostgreSQL function \<^verbatim>\<open>modify_points\<close>, which the service
  layer calls by name and whose body is not among the sources. It follows the contract of
  the ledger engine (section 4.1): a non-positive amount is refused; the balance is read
  with 0 for an unknown identity; a removal that would leave a negative balance while
  negative balances are not allowed is refused before any write; otherwise the new balance
  and one history record are committed together. The refusal carries the message that the
  service layer and the remove handler look for. \<open>now\<close> is the commit time.
\<close>

definition modify_points :: "int \<Rightarrow> rpc_args \<Rightarrow> ledger \<Rightarrow> points_snapshot response \<times> ledger" where
  \<comment> \<open>Modelled from the spec: the stored procedure \<^verbatim>\<open>modify_points\<close>, absent from the sources\<close>
  "modify_points now args l =
     (if p_amount args \<le> 0
      then (Response None (Some \<lparr>code = ''P0001'', message = ''Amount must be positive''\<rparr>), l)
      else
        let bef = balance_of l (p_target_user_id args);
            aft = (case p_action_type args of
                     ADD \<Rightarrow> bef + p_amount args
                   | REMOVE \<Rightarrow> bef - p_amount args)
        in if p_action_type args = REMOVE \<and> \<not> p_allow_negative args \<and> aft < 0
           then (Response None (Some \<lparr>code = ''P0001'', message = ''Insufficient points''\<rparr>), l)
           else (Response (Some \<lparr>before_points = bef, after_points = aft\<rparr>) None,
                 l\<lparr>staff_points := AList.update (p_target_user_id args) aft (staff_points l),
                   points_history := points_history l @
                     [\<lparr>before_points = bef, after_points = aft,
                       record_id = length (points_history l),
                       target_user_id = p_target_user_id args,
                       action_by_user_id = p_action_by_user_id args,
                       action_type = p_action_type args,
                       amount = p_amount args,
                       reason = p_reason args,
                       created_at = now\<rparr>]\<rparr>))"

text \<open>The two tables of a ledger, as the service layer reads them.\<close>

definition ledger_staff_points :: "ledger \<Rightarrow> pg_error + (user_id \<times> int) list" where
  "ledger_staff_points l = Inr (staff_points l)"

definition ledger_points_history :: "ledger \<Rightarrow> pg_error + history_record list" where
  "ledger_points_history l = Inr (points_history l)"

section \<open>Statement generator (utils/historyGenerator.js)\<close>

record discord_user =
  user_id :: user_id
  username :: string

text \<open>
  \<open>now\<close> is the time value \<^verbatim>\<open>new Date()\<close> reads at the start of the call. A history row's
  \<open>created_at\<close> is the instant its timestamp column denotes, from which
  \<^verbatim>\<open>new Date(record.created_at)\<close> makes a date or an Invalid Date. The lines are collected
  first and joined at the end, as in the source; an exception ends the call.
\<close>

definition headerLines :: "string \<Rightarrow> string \<Rightarrow> discord_user \<Rightarrow> string list" where
  "headerLines generatedDate generatedTime user =
     [''==================================================================='',
      ''                  OFFICIAL POINTS STATEMENT'',
      ''==================================================================='',
      ''USER     : '' @ username user @ '' (ID: '' @ user_id user @ '')'',
      ''GENERATED: '' @ generatedDate @ '' '' @ generatedTime @ '' UTC'',
      ''==================================================================='',
      ''DATE         TIME    ADMIN           ACTION      AMT    BALANCE'',
      ''-------------------------------------------------------------------'']"

definition recordLines :: "history_record \<Rightarrow> js_error + string list" where
  "recordLines r =
     (let date = newDate (created_at r) in
      case toISOString date of
        Inl e \<Rightarrow> Inl e
      | Inr str \<Rightarrow>
          let dateStr = isoDatePart str in
          case isoTimePart str of
            Inl e \<Rightarrow> Inl e
          | Inr timeStr \<Rightarrow>
              let action = (if action_type r = ADD then ''[ADD]   '' else ''[REMOVE]'');
                  amountStr = (if action_type r = ADD
                               then padStart 7 (''+'' @ String_int (amount r))
                               else padStart 7 (''-'' @ String_int (amount r)));
                  balanceStr = padStart 8 (String_int (after_points r));
                  adminId = action_by_user_id r;
                  adminName = ''User_'' @ substring0 8 adminId
              in Inr ([dateStr @ ''   '' @ timeStr @ ''   '' @ padEnd 15 adminName @ '' '' @ action
                       @ ''   '' @ amountStr @ ''   '' @ balanceStr]
                      @ (case reason r of
                           None \<Rightarrow> []
                         | Some m \<Rightarrow> if m \<noteq> [] then [''                     Memo: '' @ m] else [])
                      @ [[]]))"

fun historyLoop :: "string list \<Rightarrow> history_record list \<Rightarrow> js_error + string list" where
  "historyLoop lns [] = Inr lns"
| "historyLoop lns (r # rs) =
     (case recordLines r of
        Inl e \<Rightarrow> Inl e
      | Inr ls \<Rightarrow> historyLoop (lns @ ls) rs)"

definition closingBalance :: "history_record list \<Rightarrow> int" where
  "closingBalance history = (if length history > 0 then after_points (history ! 0) else 0)"

definition closingLines :: "history_record list \<Rightarrow> string list" where
  "closingLines history =
     [''-------------------------------------------------------------------'',
      ''                     CLOSING BALANCE             ''
        @ padStart 8 (String_int (closingBalance history)),
      ''==================================================================='',
      ''* This is an automated record.'']"

definition generateHistoryLines ::
  "time_value \<Rightarrow> discord_user \<Rightarrow> history_record list \<Rightarrow> js_error + string list" where
  "generateHistoryLines now user history =
     (case toISOString (DateValue now) of
        Inl e \<Rightarrow> Inl e
      | Inr str \<Rightarrow>
          let generatedDate = isoDatePart str in
          case isoTimePart str of
            Inl e \<Rightarrow> Inl e
          | Inr generatedTime \<Rightarrow>
              (case historyLoop (headerLines generatedDate generatedTime user) history of
                 Inl e \<Rightarrow> Inl e
               | Inr lns \<Rightarrow> Inr (lns @ closingLines history)))"

definition generateHistoryFile ::
  "time_value \<Rightarrow> discord_user \<Rightarrow> history_record list \<Rightarrow> js_error + string" where
  "generateHistoryFile now user history =
     (case generateHistoryLines now user history of
        Inl e \<Rightarrow> Inl e
      | Inr lns \<Rightarrow> Inr (join newline lns))"

section \<open>Cooldowns (utils/cooldown.js)\<close>

text \<open>
  The module-level \<^verbatim>\<open>Map\<close> of per-user \<^verbatim>\<open>Map\<close>s is an association list of association
  lists, passed explicitly. A pending \<^verbatim>\<open>setTimeout\<close> is an entry of \<open>timers\<close> with its due
  time; \<open>cooldownTimeout\<close> is the callback it runs.
\<close>

type_synonym cooldown_map = "(user_id \<times> (string \<times> int) list) list"

record cooldown_state =
  cooldowns :: cooldown_map
  timers :: "(int \<times> user_id \<times> string) list"

definition COOLDOWN_DURATION :: int where
  "COOLDOWN_DURATION = 3000"

definition checkCooldown :: "cooldown_map \<Rightarrow> int \<Rightarrow> user_id \<Rightarrow> string \<Rightarrow> int" where
  "checkCooldown cds now userId commandName =
     (case map_of cds userId of
        None \<Rightarrow> 0
      | Some userCooldowns \<Rightarrow>
          (case map_of userCooldowns commandName of
             None \<Rightarrow> 0
           | Some expirationTime \<Rightarrow>
               if now < expirationTime
               then \<lceil>real_of_int (expirationTime - now) / 1000\<rceil>
               else 0))"

definition setCooldown :: "int \<Rightarrow> user_id \<Rightarrow> string \<Rightarrow> cooldown_state \<Rightarrow> cooldown_state" where
  "setCooldown now userId commandName st =
     (let cds = (if map_of (cooldowns st) userId = None
                 then AList.update userId [] (cooldowns st)
                 else cooldowns st);
          userCooldowns = (case map_of cds userId of None \<Rightarrow> [] | Some m \<Rightarrow> m);
          expirationTime = now + COOLDOWN_DURATION
      in \<lparr>cooldowns = AList.update userId (AList.update commandName expirationTime userCooldowns) cds,
          timers = timers st @ [(now + COOLDOWN_DURATION, userId, commandName)]\<rparr>)"

definition cooldownTimeout :: "user_id \<Rightarrow> string \<Rightarrow> cooldown_map \<Rightarrow> cooldown_map" where
  "cooldownTimeout userId commandName cds =
     (case map_of cds userId of
        None \<Rightarrow> cds
      | Some userCooldowns \<Rightarrow>
          let remaining = AList.delete commandName userCooldowns
          in if length remaining = 0 then AList.delete userId cds
             else AList.update userId remaining cds)"

fun runTimers :: "int \<Rightarrow> (int \<times> user_id \<times> string) list \<Rightarrow> cooldown_map \<Rightarrow> cooldown_state" where
  "runTimers now [] cds = \<lparr>cooldowns = cds, timers = []\<rparr>"
| "runTimers now ((due, u, c) # ts) cds =
     (if due \<le> now then runTimers now ts (cooldownTimeout u c cds)
      else (let st = runTimers now ts cds in st\<lparr>timers := (due, u, c) # timers st\<rparr>))"

definition clearAllCooldowns :: "cooldown_state \<Rightarrow> cooldown_state" where
  "clearAllCooldowns st = st\<lparr>cooldowns := []\<rparr>"

definition cooldown_entry :: "cooldown_map \<Rightarrow> user_id \<Rightarrow> string \<Rightarrow> int option" where
  \<comment> \<open>the expiration time stored for a (user, command) pair, if any\<close>
  "cooldown_entry cds userId commandName =
     (case map_of cds userId of None \<Rightarrow> None | Some userCooldowns \<Rightarrow> map_of userCooldowns commandName)"

section \<open>Configuration (config.js)\<close>

record config_points =
  allowSelfAdd :: bool
  allowNegativeBalance :: bool
  minAmount :: int
  maxAmount :: int

record config_features =
  dmHistoryOnly :: bool
  requireAuditLog :: bool

record config =
  allowedGuildId :: string
  pointManagers :: "user_id list"
  superAdmins :: "user_id list"
  points :: config_points
  features :: config_features

definition config :: config where
  "config =
     \<lparr>allowedGuildId = ''1434124929879773197'',
      pointManagers = [''937194748618354708'', ''1232261529752178719'', ''1450450293547339808''],
      superAdmins = [''937194748618354708'', ''1306580945419370621''],
      points = \<lparr>allowSelfAdd = False, allowNegativeBalance = False,
                minAmount = 1, maxAmount = 10000\<rparr>,
      features = \<lparr>dmHistoryOnly = True, requireAuditLog = True\<rparr>\<rparr>"

text \<open>The permission functions read the module's \<open>config\<close>; it is their first argument here.\<close>

definition isAllowedServer :: "config \<Rightarrow> string \<Rightarrow> bool" where
  "isAllowedServer cfg guildId = (guildId = allowedGuildId cfg)"

definition isSuperAdmin :: "config \<Rightarrow> user_id \<Rightarrow> bool" where
  "isSuperAdmin cfg userId = (userId \<in> set (superAdmins cfg))"

definition isPointManager :: "config \<Rightarrow> user_id \<Rightarrow> bool" where
  "isPointManager cfg userId = (userId \<in> set (pointManagers cfg) \<or> isSuperAdmin cfg userId)"

definition canManagePoints :: "config \<Rightarrow> user_id \<Rightarrow> user_id \<Rightarrow> bool" where
  "canManagePoints cfg userId targetUserId =
     (if isSuperAdmin cfg userId then True
      else if isPointManager cfg userId
           then (if userId = targetUserId then allowSelfAdd (points cfg) else True)
           else False)"

definition canViewHistory :: "config \<Rightarrow> user_id \<Rightarrow> user_id \<Rightarrow> bool" where
  "canViewHistory cfg userId targetUserId =
     (if userId = targetUserId then True
      else isPointManager cfg userId \<or> isSuperAdmin cfg userId)"

section \<open>Audit log (utils/logger.js)\<close>

text \<open>
  What the bot sends is collected in an outbox, in order. A user interpolated into a
  message is its mention. The log channel is what \<^verbatim>\<open>LOG_CHANNEL_ID\<close> and the fetch give.
\<close>

datatype event =
    Reply string
  | DeferReply
  | EditReply string
  | ChannelSend string

datatype log_channel = NotConfigured | FetchFails | NotTextBased | SendFails | TextChannel

record audit_data =
  log_type :: action_type
  targetUser :: discord_user
  log_amount :: int
  executor :: discord_user

definition userMention :: "discord_user \<Rightarrow> string" where
  "userMention u = ''<@'' @ user_id u @ ''>''"

definition horizontalRule :: "nat \<Rightarrow> string" where
  \<comment> \<open>a run of U+2500 characters\<close>
  "horizontalRule n = concat (replicate n [CHR 0xE2, CHR 0x94, CHR 0x80])"

definition auditMessage :: "audit_data \<Rightarrow> int \<Rightarrow> string" where
  "auditMessage d now =
     (let emoji = (if log_type d = ADD then ''<:up:1450773420362174605>''
                   else ''<:down:1450773447813632023>'');
          sign = (if log_type d = ADD then ''+'' else ''-'');
          action = (if log_type d = ADD then ''ADDED'' else ''REMOVED'');
          unixTimestamp = now div 1000
      in join newline
           [emoji @ '' **POINTS '' @ action @ ''**'',
            [],
            ''**User:** '' @ userMention (targetUser d),
            ''**Amount:** '' @ sign @ String_int (log_amount d),
            ''**By:** <:admin:1450781535002427476> '' @ userMention (executor d),
            ''**Time:** <a:time:1450781529700565073> <t:'' @ String_int unixTimestamp @ '':F>'',
            [],
            horizontalRule 31])"

definition sendAuditLog :: "log_channel \<Rightarrow> audit_data \<Rightarrow> int \<Rightarrow> event list \<Rightarrow> event list" where
  "sendAuditLog channel d now out =
     (case channel of
        TextChannel \<Rightarrow> out @ [ChannelSend (auditMessage d now)]
      | _ \<Rightarrow> out)"

section \<open>The points command (commands/points.js)\<close>

text \<open>
  An interaction carries the invoking user and the three options of the subcommand.
  The handlers read the clock three times: in \<open>checkCooldown\<close>, in \<open>setCooldown\<close> and in
  \<open>sendAuditLog\<close>. An error a handler throws is the outcome \<open>Failed\<close>.
\<close>

record interaction =
  user :: discord_user
  opt_user :: discord_user
  opt_amount :: int
  opt_reason :: "string option"

record handler_times =
  at_check :: int
  at_cooldown :: int
  at_log :: int

record 's world =
  database :: 's
  cooldown_state :: cooldown_state
  outbox :: "event list"

datatype outcome =
    NoPermission
  | SelfRejected
  | OnCooldown int
  | Failed js_error
  | Completed

definition reply :: "string \<Rightarrow> 's world \<Rightarrow> 's world" where
  "reply content w = w\<lparr>outbox := outbox w @ [Reply content]\<rparr>"

definition deferReply :: "'s world \<Rightarrow> 's world" where
  "deferReply w = w\<lparr>outbox := outbox w @ [DeferReply]\<rparr>"

definition editReply :: "string \<Rightarrow> 's world \<Rightarrow> 's world" where
  "editReply content w = w\<lparr>outbox := outbox w @ [EditReply content]\<rparr>"

definition slowDownMessage :: "int \<Rightarrow> string" where
  "slowDownMessage cooldownRemaining =
     ''<:time:1450781529700565073> **Slow down!** Please wait '' @ String_int cooldownRemaining
     @ '' second'' @ (if cooldownRemaining > 1 then ''s'' else []) @ '' before using this command again.''"

definition optionalReason :: "string option \<Rightarrow> string option" where
  \<comment> \<open>\<^verbatim>\<open>interaction.options.getString('reason') || null\<close>\<close>
  "optionalReason r = (case r of None \<Rightarrow> None | Some m \<Rightarrow> if m \<noteq> [] then Some m else None)"

definition handleAdd ::
  "config \<Rightarrow> log_channel \<Rightarrow> (rpc_args \<Rightarrow> 's \<Rightarrow> points_snapshot response \<times> 's) \<Rightarrow>
   handler_times \<Rightarrow> interaction \<Rightarrow> 's world \<Rightarrow> outcome \<times> 's world" where
  "handleAdd cfg channel rpc tm i w =
     (let executorId = user_id (user i);
          targetUserId = user_id (opt_user i);
          amt = opt_amount i
      in if \<not> canManagePoints cfg executorId targetUserId
         then (NoPermission,
               reply ''<:error:1450781522545086599> **You do not have permission to add points.**'' w)
         else if executorId = targetUserId \<and> \<not> allowSelfAdd (points cfg)
         then (SelfRejected,
               reply ''<:error:1450781522545086599> **You cannot add points to yourself.**'' w)
         else
           let cooldownRemaining =
                 checkCooldown (cooldowns (cooldown_state w)) (at_check tm) executorId ''points_add''
           in if cooldownRemaining > 0
              then (OnCooldown cooldownRemaining, reply (slowDownMessage cooldownRemaining) w)
              else
                let w1 = editReply (''<a:time:1450781529700565073> **Processing transaction...**''
                           @ newline @ ''> Verifying permissions & updating balance'') (deferReply w);
                    rsn = optionalReason (opt_reason i)
                in case addPoints rpc targetUserId executorId amt rsn (database w1) of
                     (Inl e, db') \<Rightarrow> (Failed e, w1\<lparr>database := db'\<rparr>)
                   | (Inr r, db') \<Rightarrow>
                       let w2 = w1\<lparr>database := db',
                                   cooldown_state :=
                                     setCooldown (at_cooldown tm) executorId ''points_add''
                                       (cooldown_state w1)\<rparr>;
                           responseLines =
                             [''<:up:1450773420362174605> <:success:1450781525812449280> **POINTS ADDED**'',
                              [],
                              ''**User:** '' @ userMention (opt_user i),
                              ''**Before:** '' @ String_int (before r),
                              ''**Added:** +'' @ String_int amt,
                              ''**After:** '' @ String_int (after r)]
                             @ (case rsn of None \<Rightarrow> [] | Some m \<Rightarrow> [''**Reason:** '' @ m])
                             @ [[], horizontalRule 28];
                           w3 = editReply (join newline responseLines) w2
                       in (Completed,
                           w3\<lparr>outbox :=
                                sendAuditLog channel
                                  \<lparr>log_type = ADD, targetUser = opt_user i, log_amount = amt,
                                   executor = user i\<rparr>
                                  (at_log tm) (outbox w3)\<rparr>))"

definition handleRemove ::
  "config \<Rightarrow> log_channel \<Rightarrow> (rpc_args \<Rightarrow> 's \<Rightarrow> points_snapshot response \<times> 's) \<Rightarrow>
   handler_times \<Rightarrow> interaction \<Rightarrow> 's world \<Rightarrow> outcome \<times> 's world" where
  "handleRemove cfg channel rpc tm i w =
     (let executorId = user_id (user i);
          targetUserId = user_id (opt_user i);
          amt = opt_amount i
      in if \<not> canManagePoints cfg executorId targetUserId
         then (NoPermission,
               reply ''<:error:1450781522545086599> **You do not have permission to remove points.**'' w)
         else if executorId = targetUserId \<and> \<not> allowSelfAdd (points cfg)
         then (SelfRejected,
               reply ''<:error:1450781522545086599> **You cannot remove points from yourself.**'' w)
         else
           let cooldownRemaining =
                 checkCooldown (cooldowns (cooldown_state w)) (at_check tm) executorId ''points_remove''
           in if cooldownRemaining > 0
              then (OnCooldown cooldownRemaining, reply (slowDownMessage cooldownRemaining) w)
              else
                let w1 = editReply (''<:admin:1450781535002427476> **Authorizing deduction...**''
                           @ newline @ ''> Running balance validation'') (deferReply w);
                    rsn = optionalReason (opt_reason i)
                in case removePoints rpc targetUserId executorId amt
                          (allowNegativeBalance (points cfg)) rsn (database w1) of
                     (Inl e, db') \<Rightarrow>
                       (Failed (if error_message e \<noteq> [] \<and> str_includes (error_message e) ''Insufficient points''
                                then Error (''Cannot remove '' @ String_int amt
                                            @ '' points. User has insufficient balance.'')
                                else e),
                        w1\<lparr>database := db'\<rparr>)
                   | (Inr r, db') \<Rightarrow>
                       let w2 = w1\<lparr>database := db',
                                   cooldown_state :=
                                     setCooldown (at_cooldown tm) executorId ''points_remove''
                                       (cooldown_state w1)\<rparr>;
                           responseLines =
                             [''<:down:1450773447813632023> <:success:1450781525812449280> **POINTS DEDUCTED**'',
                              [],
                              ''**User:** '' @ userMention (opt_user i),
                              ''**Before:** '' @ String_int (before r),
                              ''**Removed:** -'' @ String_int amt,
                              ''**After:** '' @ String_int (after r)]
                             @ (case rsn of None \<Rightarrow> [] | Some m \<Rightarrow> [''**Reason:** '' @ m])
                             @ [[], horizontalRule 28];
                           w3 = editReply (join newline responseLines) w2
                       in (Completed,
                           w3\<lparr>outbox :=
                                sendAuditLog channel
                                  \<lparr>log_type = REMOVE, targetUser = opt_user i, log_amount = amt,
                                   executor = user i\<rparr>
                                  (at_log tm) (outbox w3)\<rparr>))"

definition rejected :: "outcome \<Rightarrow> bool" where
  \<comment> \<open>the handler returned at its permission check or at its self-action check\<close>
  "rejected out = (out = NoPermission \<or> out = SelfRejected)"

definition audit_emissions :: "event list \<Rightarrow> string list" where
  \<comment> \<open>the messages sent to the log channel\<close>
  "audit_emissions evs = concat (map (\<lambda>e. case e of ChannelSend m \<Rightarrow> [m] | _ \<Rightarrow> []) evs)"

section \<open>Example data\<close>

definition example_admin :: discord_user where
  \<comment> \<open>a super admin of \<open>config\<close>\<close>
  "example_admin = \<lparr>user_id = ''1306580945419370621'', username = ''admin''\<rparr>"

definition example_manager :: discord_user where
  \<comment> \<open>a point manager of \<open>config\<close> who is no super admin\<close>
  "example_manager = \<lparr>user_id = ''1232261529752178719'', username = ''manager''\<rparr>"

definition example_member :: discord_user where
  \<comment> \<open>neither point manager nor super admin\<close>
  "example_member = \<lparr>user_id = ''42'', username = ''member''\<rparr>"

definition config_self_allowed :: config where
  "config_self_allowed = config\<lparr>points := (points config)\<lparr>allowSelfAdd := True\<rparr>\<rparr>"

definition example_times :: handler_times where
  "example_times = \<lparr>at_check = 0, at_cooldown = 1300, at_log = 1400\<rparr>"

definition example_ledger :: ledger where
  "example_ledger =
     \<lparr>staff_points = [(''42'', 30), (''43'', 7)],
      points_history =
        [\<lparr>before_points = 0, after_points = 50, record_id = 0, target_user_id = ''42'',
          action_by_user_id = ''1306580945419370621'', action_type = ADD, amount = 50,
          reason = Some ''bonus'', created_at = 1000\<rparr>,
         \<lparr>before_points = 0, after_points = 7, record_id = 1, target_user_id = ''43'',
          action_by_user_id = ''1306580945419370621'', action_type = ADD, amount = 7,
          reason = None, created_at = 2000\<rparr>,
         \<lparr>before_points = 50, after_points = 30, record_id = 2, target_user_id = ''42'',
          action_by_user_id = ''1232261529752178719'', action_type = REMOVE, amount = 20,
          reason = None, created_at = 3000\<rparr>]\<rparr>"

definition example_world :: "ledger \<Rightarrow> ledger world" where
  "example_world l =
     \<lparr>database = l, cooldown_state = \<lparr>cooldowns = [], timers = []\<rparr>, outbox = []\<rparr>"

definition self_interaction :: "discord_user \<Rightarrow> interaction" where
  \<comment> \<open>the user names themselves as the target\<close>
  "self_interaction u = \<lparr>user = u, opt_user = u, opt_amount = 5, opt_reason = None\<rparr>"

definition award_interaction :: "string option \<Rightarrow> interaction" where
  \<comment> \<open>the super admin acts on the member, amount 5, with the given reason\<close>
  "award_interaction r =
     \<lparr>user = example_admin, opt_user = example_member, opt_amount = 5, opt_reason = r\<rparr>"

definition rich_ledger :: ledger where
  "rich_ledger = \<lparr>staff_points = [(''42'', 100)], points_history = []\<rparr>"

definition cell_rpc :: "rpc_args \<Rightarrow> int \<Rightarrow> points_snapshot response \<times> int" where
  \<comment> \<open>a remote call over a store that is one balance, with no policy\<close>
  "cell_rpc args n =
     (case p_action_type args of
        ADD \<Rightarrow> (Response (Some \<lparr>before_points = n, after_points = n + p_amount args\<rparr>) None,
                n + p_amount args)
      | REMOVE \<Rightarrow> (Response (Some \<lparr>before_points = n, after_points = n - p_amount args\<rparr>) None,
                   n - p_amount args))"

definition overdrawn_ledger :: ledger where
  \<comment> \<open>a balance left negative by an earlier removal made while negative balances were allowed\<close>
  "overdrawn_ledger =
     \<lparr>staff_points = [(''7'', - 5)],
      points_history =
        [\<lparr>before_points = 10, after_points = - 5, record_id = 0, target_user_id = ''7'',
          action_by_user_id = ''8'', action_type = REMOVE, amount = 15, reason = None,
          created_at = 1000\<rparr>]\<rparr>"

definition example_history :: "history_record list" where
  \<comment> \<open>the history of the member after 50 points were added and 20 removed, newest first\<close>
  "example_history =
     [\<lparr>before_points = 50, after_points = 30, record_id = 1, target_user_id = ''42'',
       action_by_user_id = ''1306580945419370621'', action_type = REMOVE, amount = 20,
       reason = None, created_at = 1700000100000\<rparr>,
      \<lparr>before_points = 0, after_points = 50, record_id = 0, target_user_id = ''42'',
       action_by_user_id = ''1306580945419370621'', action_type = ADD, amount = 50,
       reason = Some ''bonus'', created_at = 1700000000123\<rparr>]"

definition unrepresentable_history :: "history_record list" where
  \<comment> \<open>one record, stamped one millisecond beyond the last instant a \<^verbatim>\<open>Date\<close> can hold\<close>
  "unrepresentable_history =
     [\<lparr>before_points = 0, after_points = 50, record_id = 0, target_user_id = ''42'',
       action_by_user_id = ''1306580945419370621'', action_type = ADD, amount = 50,
       reason = Some ''bonus'', created_at = 8640000000000001\<rparr>]"

section \<open>Verification: the database service layer\<close>

lemma str_includes_self: "str_includes s s"
  by (simp add: str_includes_def)

lemma pg_eq_no_match: "v \<notin> col ` set rows \<Longrightarrow> pg_eq col v rows = []"
  by (auto simp: pg_eq_def filter_empty_conv)

lemma pg_order_desc_sorted:
  "sorted_wrt (\<lambda>r r'. col r \<ge> col r') (pg_order col False rows)"
proof -
  have "sorted (map col (sort_key col rows))" by (rule sorted_sort_key)
  then have "sorted_wrt (\<lambda>r r'. col r \<le> col r') (sort_key col rows)"
    by (simp add: sorted_wrt_map)
  then show ?thesis
    by (simp add: pg_order_def sorted_wrt_rev)
qed

text \<open>
  C2. A non-positive amount makes \<open>addPoints\<close> and \<open>removePoints\<close> fail with the error
  ``Amount must be positive'' whatever the remote call would do, and the store is handed
  back as it was: the remote call is not made. From 1 on the validation passes: the result
  is what the service function makes of the response of the remote call, and the store is
  the one that call leaves.
\<close>

theorem amount_validation:
  "(amt \<le> 0 \<longrightarrow>
      addPoints rpc t a amt rsn st = (Inl (Error ''Amount must be positive''), st)
    \<and> removePoints rpc t a amt neg rsn st = (Inl (Error ''Amount must be positive''), st))
   \<and> (1 \<le> amt \<longrightarrow>
      addPoints rpc t a amt rsn st =
        (case rpc \<lparr>p_target_user_id = t, p_action_by_user_id = a, p_action_type = ADD,
                   p_amount = amt, p_allow_negative = False, p_reason = rsn\<rparr> st of
           (resp, st') \<Rightarrow> (addPoints_result resp, st'))
    \<and> removePoints rpc t a amt neg rsn st =
        (case rpc \<lparr>p_target_user_id = t, p_action_by_user_id = a, p_action_type = REMOVE,
                   p_amount = amt, p_allow_negative = neg, p_reason = rsn\<rparr> st of
           (resp, st') \<Rightarrow> (removePoints_result resp, st')))"
  by (simp add: addPoints_def removePoints_def)

theorem amount_validation_witness:
  "(- 3::int) \<le> 0
   \<and> addPoints cell_rpc ''7'' ''8'' (- 3) None 10 = (Inl (Error ''Amount must be positive''), 10)
   \<and> removePoints cell_rpc ''7'' ''8'' (- 3) False None 10
       = (Inl (Error ''Amount must be positive''), 10)
   \<and> (1::int) \<le> 1
   \<and> addPoints cell_rpc ''7'' ''8'' 1 None 10 = (Inr \<lparr>before = 10, after = 11\<rparr>, 11)
   \<and> removePoints cell_rpc ''7'' ''8'' 1 False None 10 = (Inr \<lparr>before = 10, after = 9\<rparr>, 9)"
  using amount_validation
          [where amt = "- 3" and t = "''7''" and a = "''8''" and rsn = None and st = 10
             and neg = False and rpc = cell_rpc]
        amount_validation
          [where amt = 1 and t = "''7''" and a = "''8''" and rsn = None and st = 10
             and neg = False and rpc = cell_rpc]
  by (simp add: addPoints_result_def removePoints_result_def cell_rpc_def)

text \<open>
  C1, as the code has it. With the stored procedure of the ledger engine behind it, a removal
  of an amount of at least 1 that would leave the balance below 0 fails with the error
  ``Insufficient points'' when negative balances are not allowed, and the ledger is
  unchanged: same balances, same history. The same call with negative balances allowed
  succeeds, returns the balance before and the negative balance after, stores that balance
  and appends one history record.
\<close>

theorem removePoints_negative_balance_policy:
  assumes "1 \<le> amt" and "balance_of st t - amt < 0"
  shows "removePoints (modify_points now) t a amt False rsn st
           = (Inl (Error ''Insufficient points''), st)
       \<and> removePoints (modify_points now) t a amt True rsn st
           = (Inr \<lparr>before = balance_of st t, after = balance_of st t - amt\<rparr>,
              st\<lparr>staff_points := AList.update t (balance_of st t - amt) (staff_points st),
                 points_history := points_history st @
                   [\<lparr>before_points = balance_of st t, after_points = balance_of st t - amt,
                     record_id = length (points_history st), target_user_id = t,
                     action_by_user_id = a, action_type = REMOVE, amount = amt,
                     reason = rsn, created_at = now\<rparr>]\<rparr>)"
  using assms
  by (simp add: removePoints_def modify_points_def removePoints_result_def Let_def
      str_includes_self)

theorem removePoints_negative_balance_policy_witness:
  "(1::int) \<le> 15
   \<and> balance_of \<lparr>staff_points = [(''7'', 10)], points_history = []\<rparr> ''7'' - 15 < 0
   \<and> removePoints (modify_points 1000) ''7'' ''8'' 15 False None
         \<lparr>staff_points = [(''7'', 10)], points_history = []\<rparr>
       = (Inl (Error ''Insufficient points''), \<lparr>staff_points = [(''7'', 10)], points_history = []\<rparr>)
   \<and> removePoints (modify_points 1000) ''7'' ''8'' 15 True None
         \<lparr>staff_points = [(''7'', 10)], points_history = []\<rparr>
       = (Inr \<lparr>before = 10, after = -5\<rparr>, overdrawn_ledger)"
  using removePoints_negative_balance_policy
          [of 15 "\<lparr>staff_points = [(''7'', 10)], points_history = []\<rparr>" "''7''" 1000 "''8''" None]
  by (simp add: balance_of_def overdrawn_ledger_def)

text \<open>
  C1, as claimed for every call, fails where the amount is not positive: on the overdrawn
  ledger a removal of 0 would leave the balance at -5, below 0, and the call fails with
  ``Amount must be positive'', not with ``Insufficient points'', whether negative balances
  are allowed or not.
\<close>

theorem removePoints_every_call_counterexample:
  "balance_of overdrawn_ledger ''7'' - 0 < 0
   \<and> removePoints (modify_points 2000) ''7'' ''8'' 0 False None overdrawn_ledger
       = (Inl (Error ''Amount must be positive''), overdrawn_ledger)
   \<and> removePoints (modify_points 2000) ''7'' ''8'' 0 False None overdrawn_ledger
       \<noteq> (Inl (Error ''Insufficient points''), overdrawn_ledger)
   \<and> removePoints (modify_points 2000) ''7'' ''8'' 0 True None overdrawn_ledger
       = (Inl (Error ''Amount must be positive''), overdrawn_ledger)"
  by (simp add: removePoints_def balance_of_def overdrawn_ledger_def)

text \<open>
  C5. When the store answers and holds no balance row for the identity, \<open>getUserPoints\<close>
  returns 0 as a value; it does not fail.
\<close>

theorem getUserPoints_unknown_identity:
  assumes "from_staff_points st = Inr rows" and "userId \<notin> fst ` set rows"
  shows "getUserPoints from_staff_points userId st = Inr 0"
proof -
  have "pg_eq fst userId rows = []"
    using assms(2) by (rule pg_eq_no_match)
  then show ?thesis
    using assms(1) by (simp add: getUserPoints_def pg_single_def)
qed

theorem getUserPoints_unknown_identity_witness:
  "ledger_staff_points \<lparr>staff_points = [(''7'', 10)], points_history = []\<rparr> = Inr [(''7'', 10)]
   \<and> ''9'' \<notin> fst ` set [(''7'', 10::int)]
   \<and> getUserPoints ledger_staff_points ''9'' \<lparr>staff_points = [(''7'', 10)], points_history = []\<rparr> = Inr 0"
proof -
  have 1: "ledger_staff_points \<lparr>staff_points = [(''7'', 10)], points_history = []\<rparr> = Inr [(''7'', 10)]"
    by (simp add: ledger_staff_points_def)
  have 2: "''9'' \<notin> fst ` set [(''7'', 10::int)]"
    by simp
  from 1 2 getUserPoints_unknown_identity
      [where from_staff_points = ledger_staff_points and userId = "''9''"
         and st = "\<lparr>staff_points = [(''7'', 10)], points_history = []\<rparr>"
         and rows = "[(''7'', 10)]"]
  show ?thesis by blast
qed

text \<open>
  C6. When the store answers, \<open>getPointsHistory\<close> returns exactly the stored history records
  of the user (each as often as it is stored), ordered by \<open>created_at\<close> descending, newest
  first; a user without history records gets the empty sequence.
\<close>

theorem getPointsHistory_newest_first:
  assumes "from_points_history st = Inr rows"
  shows "\<exists>h. getPointsHistory from_points_history userId st = Inr h
           \<and> sorted_wrt (\<lambda>r r'. created_at r \<ge> created_at r') h
           \<and> mset h = mset (filter (\<lambda>r. target_user_id r = userId) rows)
           \<and> (userId \<notin> target_user_id ` set rows \<longrightarrow> h = [])"
proof -
  let ?h = "pg_order created_at False (pg_eq target_user_id userId rows)"
  have 1: "getPointsHistory from_points_history userId st = Inr ?h"
    using assms by (simp add: getPointsHistory_def)
  have 2: "sorted_wrt (\<lambda>r r'. created_at r \<ge> created_at r') ?h"
    by (rule pg_order_desc_sorted)
  have 3: "mset ?h = mset (filter (\<lambda>r. target_user_id r = userId) rows)"
    by (simp add: pg_order_def pg_eq_def)
  have 4: "userId \<notin> target_user_id ` set rows \<longrightarrow> ?h = []"
    by (simp add: pg_eq_no_match pg_order_def)
  from 1 2 3 4 show ?thesis by blast
qed

theorem getPointsHistory_newest_first_witness:
  "ledger_points_history example_ledger = Inr (points_history example_ledger)
   \<and> ''99'' \<notin> target_user_id ` set (points_history example_ledger)
   \<and> getPointsHistory ledger_points_history ''99'' example_ledger = Inr []
   \<and> getPointsHistory ledger_points_history ''42'' example_ledger
       = Inr [\<lparr>before_points = 50, after_points = 30, record_id = 2, target_user_id = ''42'',
               action_by_user_id = ''1232261529752178719'', action_type = REMOVE, amount = 20,
               reason = None, created_at = 3000\<rparr>,
              \<lparr>before_points = 0, after_points = 50, record_id = 0, target_user_id = ''42'',
               action_by_user_id = ''1306580945419370621'', action_type = ADD, amount = 50,
               reason = Some ''bonus'', created_at = 1000\<rparr>]"
proof -
  have 1: "ledger_points_history example_ledger = Inr (points_history example_ledger)"
    by (simp add: ledger_points_history_def)
  have 2: "''99'' \<notin> target_user_id ` set (points_history example_ledger)"
    by (simp add: example_ledger_def)
  have 3: "getPointsHistory ledger_points_history ''99'' example_ledger = Inr []"
    using getPointsHistory_newest_first
            [where from_points_history = ledger_points_history and st = example_ledger
               and rows = "points_history example_ledger" and userId = "''99''"]
          1 2
    by auto
  have 4: "getPointsHistory ledger_points_history ''42'' example_ledger
       = Inr [\<lparr>before_points = 50, after_points = 30, record_id = 2, target_user_id = ''42'',
               action_by_user_id = ''1232261529752178719'', action_type = REMOVE, amount = 20,
               reason = None, created_at = 3000\<rparr>,
              \<lparr>before_points = 0, after_points = 50, record_id = 0, target_user_id = ''42'',
               action_by_user_id = ''1306580945419370621'', action_type = ADD, amount = 50,
               reason = Some ''bonus'', created_at = 1000\<rparr>]"
    by (simp add: getPointsHistory_def ledger_points_history_def example_ledger_def
        pg_order_def pg_eq_def)
  from 1 2 3 4 show ?thesis by blast
qed

section \<open>Verification: the statement generator\<close>

lemma split_on_two_parts:
  "c \<in> set s \<Longrightarrow> \<exists>p q rest. split_on c s = p # q # rest"
proof (induction s)
  case Nil
  then show ?case by simp
next
  case (Cons x xs)
  show ?case
  proof (cases "x = c")
    case True
    then show ?thesis by (cases xs) (auto split: list.splits)
  next
    case False
    with Cons.prems have "c \<in> set xs" by simp
    then obtain p q rest where "split_on c xs = p # q # rest"
      using Cons.IH by blast
    with False show ?thesis by simp
  qed
qed

lemma isoFormat_has_T: "CHR ''T'' \<in> set (isoFormat t)"
  by (cases "civil_from_days (t div 86400000)") (simp add: isoFormat_def Let_def)

lemma isoTimePart_total: "\<exists>g. isoTimePart (isoFormat t) = Inr g"
proof -
  obtain p q rest where "split_on CHR ''T'' (isoFormat t) = p # q # rest"
    using split_on_two_parts [OF isoFormat_has_T] by blast
  then show ?thesis by (simp add: isoTimePart_def)
qed

lemma toISOString_newDate:
  "toISOString (newDate t)
     = (if in_date_range t then Inr (isoFormat t) else Inl (RangeError ''Invalid time value''))"
  by (simp add: toISOString_def newDate_def in_date_range_def time_value_of.rep_eq)

lemma recordLines_valid:
  assumes "in_date_range (created_at r)"
  shows "\<exists>ls. recordLines r = Inr ls"
proof -
  obtain g where "isoTimePart (isoFormat (created_at r)) = Inr g"
    using isoTimePart_total by blast
  with assms show ?thesis
    by (simp add: recordLines_def toISOString_newDate Let_def)
qed

lemma recordLines_invalid:
  "\<not> in_date_range (created_at r) \<Longrightarrow> recordLines r = Inl (RangeError ''Invalid time value'')"
  by (simp add: recordLines_def toISOString_newDate Let_def)

lemma historyLoop_appends:
  "\<forall>r\<in>set h. in_date_range (created_at r) \<Longrightarrow> \<exists>body. \<forall>acc. historyLoop acc h = Inr (acc @ body)"
proof (induction h)
  case Nil
  have "\<forall>acc. historyLoop acc [] = Inr (acc @ [])" by simp
  then show ?case by blast
next
  case (Cons r rs)
  obtain ls where ls: "recordLines r = Inr ls"
    using recordLines_valid Cons.prems by auto
  obtain body where body: "\<forall>acc. historyLoop acc rs = Inr (acc @ body)"
    using Cons.IH Cons.prems by auto
  have "\<forall>acc. historyLoop acc (r # rs) = Inr (acc @ (ls @ body))"
    using ls body by simp
  then show ?case by blast
qed

lemma historyLoop_invalid:
  "\<exists>r\<in>set h. \<not> in_date_range (created_at r) \<Longrightarrow>
   historyLoop acc h = Inl (RangeError ''Invalid time value'')"
proof (induction h arbitrary: acc)
  case Nil
  then show ?case by simp
next
  case (Cons r rs)
  show ?case
  proof (cases "in_date_range (created_at r)")
    case True
    then obtain ls where ls: "recordLines r = Inr ls"
      using recordLines_valid by blast
    from True Cons.prems have "\<exists>r\<in>set rs. \<not> in_date_range (created_at r)" by auto
    then have "historyLoop (acc @ ls) rs = Inl (RangeError ''Invalid time value'')"
      by (rule Cons.IH)
    with ls show ?thesis by simp
  next
    case False
    then show ?thesis by (simp add: recordLines_invalid)
  qed
qed

lemma generateHistoryLines_shape:
  assumes "\<forall>r\<in>set h. in_date_range (created_at r)"
  shows "\<exists>body. \<forall>now usr. \<exists>g.
     generateHistoryLines now usr h
       = Inr (headerLines (isoDatePart (isoFormat (ms_of now))) g usr @ body @ closingLines h)"
proof -
  obtain body where body: "\<forall>acc. historyLoop acc h = Inr (acc @ body)"
    using historyLoop_appends [OF assms] by blast
  have "\<exists>g. generateHistoryLines now usr h
          = Inr (headerLines (isoDatePart (isoFormat (ms_of now))) g usr @ body @ closingLines h)"
    for now usr
  proof -
    obtain g where "isoTimePart (isoFormat (ms_of now)) = Inr g"
      using isoTimePart_total by blast
    then have "generateHistoryLines now usr h
          = Inr (headerLines (isoDatePart (isoFormat (ms_of now))) g usr @ body @ closingLines h)"
      using body by (simp add: generateHistoryLines_def toISOString_def Let_def)
    then show ?thesis by blast
  qed
  then show ?thesis by blast
qed

lemma generateHistoryLines_invalid:
  assumes "\<exists>r\<in>set h. \<not> in_date_range (created_at r)"
  shows "generateHistoryLines now usr h = Inl (RangeError ''Invalid time value'')"
proof -
  obtain g where "isoTimePart (isoFormat (ms_of now)) = Inr g"
    using isoTimePart_total by blast
  then show ?thesis
    using historyLoop_invalid [OF assms]
    by (simp add: generateHistoryLines_def toISOString_def Let_def)
qed

lemma closingBalance_cases:
  "closingBalance h = (case h of [] \<Rightarrow> 0 | r # _ \<Rightarrow> after_points r)"
  by (cases h) (simp_all add: closingBalance_def)

lemma join_snoc: "xs \<noteq> [] \<Longrightarrow> join sep (xs @ [y]) = join sep xs @ sep @ y"
  by (induction sep xs rule: join.induct) simp_all

lemma join_closing:
  assumes "xs \<noteq> []"
  shows "join sep (xs @ [a, b, c, d]) = join sep xs @ sep @ a @ sep @ b @ sep @ c @ sep @ d"
proof -
  have 1: "join sep (xs @ [a]) = join sep xs @ sep @ a"
    using assms by (rule join_snoc)
  have 2: "join sep ((xs @ [a]) @ [b]) = join sep (xs @ [a]) @ sep @ b"
    by (rule join_snoc) simp
  have 3: "join sep (((xs @ [a]) @ [b]) @ [c]) = join sep ((xs @ [a]) @ [b]) @ sep @ c"
    by (rule join_snoc) simp
  have 4: "join sep ((((xs @ [a]) @ [b]) @ [c]) @ [d]) = join sep (((xs @ [a]) @ [b]) @ [c]) @ sep @ d"
    by (rule join_snoc) simp
  have "join sep (xs @ [a, b, c, d]) = join sep ((((xs @ [a]) @ [b]) @ [c]) @ [d])"
    by simp
  also have "\<dots> = join sep (((xs @ [a]) @ [b]) @ [c]) @ sep @ d"
    by (rule 4)
  also have "\<dots> = (join sep ((xs @ [a]) @ [b]) @ sep @ c) @ sep @ d"
    by (simp only: 3)
  also have "\<dots> = ((join sep (xs @ [a]) @ sep @ b) @ sep @ c) @ sep @ d"
    by (simp only: 2)
  also have "\<dots> = (((join sep xs @ sep @ a) @ sep @ b) @ sep @ c) @ sep @ d"
    by (simp only: 1)
  finally show ?thesis
    by simp
qed

text \<open>
  C3. When every record of the history sequence has a \<open>created_at\<close> within the range of
  \<^verbatim>\<open>Date\<close>, the call returns a statement that ends with the four closing lines, and the
  closing-balance line shows the \<open>after_points\<close> of the first record of the history
  sequence, or 0 for an empty history. The file is the lines joined by newlines, so its
  text ends with these four lines.
\<close>

theorem generateHistoryFile_closing_balance:
  assumes "\<forall>r\<in>set h. in_date_range (created_at r)"
  shows "\<exists>body. generateHistoryLines now usr h
             = Inr (body @
                 [''-------------------------------------------------------------------'',
                  ''                     CLOSING BALANCE             ''
                    @ padStart 8 (String_int (case h of [] \<Rightarrow> 0 | r # _ \<Rightarrow> after_points r)),
                  ''==================================================================='',
                  ''* This is an automated record.''])
         \<and> generateHistoryFile now usr h
             = Inr (join newline body @ newline
                 @ ''-------------------------------------------------------------------'' @ newline
                 @ (''                     CLOSING BALANCE             ''
                    @ padStart 8 (String_int (case h of [] \<Rightarrow> 0 | r # _ \<Rightarrow> after_points r)))
                 @ newline
                 @ ''==================================================================='' @ newline
                 @ ''* This is an automated record.'')"
proof -
  obtain body g where lns:
    "generateHistoryLines now usr h
       = Inr (headerLines (isoDatePart (isoFormat (ms_of now))) g usr @ body @ closingLines h)"
    using generateHistoryLines_shape [OF assms] by blast
  define pre where "pre = headerLines (isoDatePart (isoFormat (ms_of now))) g usr @ body"
  have ne: "pre \<noteq> []"
    by (simp add: pre_def headerLines_def)
  have 1: "generateHistoryLines now usr h = Inr (pre @ closingLines h)"
    using lns by (simp add: pre_def)
  have 2: "generateHistoryFile now usr h = Inr (join newline (pre @ closingLines h))"
    using 1 by (simp add: generateHistoryFile_def)
  note 3 = join_closing [OF ne, of newline]
  show ?thesis
    using 1 2
    unfolding closingLines_def closingBalance_cases 3
    by (intro exI [of _ pre] conjI)
qed

theorem generateHistoryFile_closing_balance_witness:
  "in_date_range 1700000100000 \<and> in_date_range 1700000000123
   \<and> (\<exists>body. generateHistoryLines (time_value_of 1700000200000) example_member example_history
             = Inr (body @
                 [''-------------------------------------------------------------------'',
                  ''                     CLOSING BALANCE             '' @ padStart 8 (String_int 30),
                  ''==================================================================='',
                  ''* This is an automated record.''])
         \<and> generateHistoryFile (time_value_of 1700000200000) example_member example_history
             = Inr (join newline body @ newline
                 @ ''-------------------------------------------------------------------'' @ newline
                 @ (''                     CLOSING BALANCE             '' @ padStart 8 (String_int 30))
                 @ newline
                 @ ''==================================================================='' @ newline
                 @ ''* This is an automated record.''))"
  using generateHistoryFile_closing_balance
          [where h = example_history and now = "time_value_of 1700000200000"
             and usr = example_member]
  by (simp add: example_history_def in_date_range_def)

text \<open>
  A record whose \<open>created_at\<close> lies one millisecond beyond the range of \<^verbatim>\<open>Date\<close> makes
  \<^verbatim>\<open>toISOString\<close> throw: the call ends with a \<^verbatim>\<open>RangeError\<close> and produces no statement,
  hence no closing-balance line.
\<close>

theorem generateHistoryFile_invalid_date_counterexample:
  "\<not> in_date_range 8640000000000001
   \<and> generateHistoryLines (time_value_of 1700000200000) example_member unrepresentable_history
       = Inl (RangeError ''Invalid time value'')
   \<and> generateHistoryFile (time_value_of 1700000200000) example_member unrepresentable_history
       = Inl (RangeError ''Invalid time value'')
   \<and> \<not> (\<exists>doc. generateHistoryFile (time_value_of 1700000200000) example_member
                    unrepresentable_history = Inr doc)"
  by (simp add: generateHistoryFile_def unrepresentable_history_def in_date_range_def
      generateHistoryLines_invalid)

text \<open>
  C4. Two calls with the same user and the same history, at any two clock readings, end
  alike. Either both return a statement, and the two statements have the same lines except
  for line 5, the \<open>GENERATED\<close> line of the header; this is the case when every record has a
  \<open>created_at\<close> within the range of \<^verbatim>\<open>Date\<close>. Or both throw the same error, which is the
  case when some record has not. The function takes no store: its result is a function of
  the clock reading, the user and the history.
\<close>

theorem generateHistoryFile_deterministic:
  "(\<exists>l1 l2. generateHistoryLines now_a usr h = Inr l1
          \<and> generateHistoryLines now_b usr h = Inr l2
          \<and> generateHistoryFile now_a usr h = Inr (join newline l1)
          \<and> generateHistoryFile now_b usr h = Inr (join newline l2)
          \<and> 4 < length l1
          \<and> take 11 (l1 ! 4) = ''GENERATED: ''
          \<and> l2 = l1[4 := l2 ! 4]
          \<and> (\<forall>r\<in>set h. in_date_range (created_at r)))
   \<or> (\<exists>e. generateHistoryLines now_a usr h = Inl e
          \<and> generateHistoryLines now_b usr h = Inl e
          \<and> generateHistoryFile now_a usr h = Inl e
          \<and> generateHistoryFile now_b usr h = Inl e
          \<and> (\<exists>r\<in>set h. \<not> in_date_range (created_at r)))"
proof (cases "\<forall>r\<in>set h. in_date_range (created_at r)")
  case True
  obtain body where body: "\<forall>now usr. \<exists>g.
     generateHistoryLines now usr h
       = Inr (headerLines (isoDatePart (isoFormat (ms_of now))) g usr @ body @ closingLines h)"
    using generateHistoryLines_shape [OF True] by blast
  obtain g1 where g1: "generateHistoryLines now_a usr h
       = Inr (headerLines (isoDatePart (isoFormat (ms_of now_a))) g1 usr @ body @ closingLines h)"
    using body by blast
  obtain g2 where g2: "generateHistoryLines now_b usr h
       = Inr (headerLines (isoDatePart (isoFormat (ms_of now_b))) g2 usr @ body @ closingLines h)"
    using body by blast
  let ?l1 = "headerLines (isoDatePart (isoFormat (ms_of now_a))) g1 usr @ body @ closingLines h"
  let ?l2 = "headerLines (isoDatePart (isoFormat (ms_of now_b))) g2 usr @ body @ closingLines h"
  have a: "4 < length ?l1" by (simp add: headerLines_def)
  have b: "take 11 (?l1 ! 4) = ''GENERATED: ''" by (simp add: headerLines_def)
  have c: "?l2 = ?l1[4 := ?l2 ! 4]" by (simp add: headerLines_def)
  have d: "generateHistoryFile now_a usr h = Inr (join newline ?l1)"
    using g1 by (simp add: generateHistoryFile_def)
  have e: "generateHistoryFile now_b usr h = Inr (join newline ?l2)"
    using g2 by (simp add: generateHistoryFile_def)
  from g1 g2 a b c d e True show ?thesis by blast
next
  case False
  then have bad: "\<exists>r\<in>set h. \<not> in_date_range (created_at r)" by blast
  have 1: "generateHistoryLines now_a usr h = Inl (RangeError ''Invalid time value'')"
    using bad by (rule generateHistoryLines_invalid)
  have 2: "generateHistoryLines now_b usr h = Inl (RangeError ''Invalid time value'')"
    using bad by (rule generateHistoryLines_invalid)
  have 3: "generateHistoryFile now_a usr h = Inl (RangeError ''Invalid time value'')"
    using 1 by (simp add: generateHistoryFile_def)
  have 4: "generateHistoryFile now_b usr h = Inl (RangeError ''Invalid time value'')"
    using 2 by (simp add: generateHistoryFile_def)
  from 1 2 3 4 bad show ?thesis by blast
qed

theorem generateHistoryFile_deterministic_witness:
  "(\<exists>l1 l2. generateHistoryLines (time_value_of 1700000200000) example_member example_history = Inr l1
          \<and> generateHistoryLines (time_value_of 1700086400000) example_member example_history = Inr l2
          \<and> generateHistoryFile (time_value_of 1700000200000) example_member example_history
              = Inr (join newline l1)
          \<and> generateHistoryFile (time_value_of 1700086400000) example_member example_history
              = Inr (join newline l2)
          \<and> 4 < length l1
          \<and> take 11 (l1 ! 4) = ''GENERATED: ''
          \<and> l2 = l1[4 := l2 ! 4])
   \<and> in_date_range 1700000100000 \<and> in_date_range 1700000000123
   \<and> (\<exists>e. generateHistoryLines (time_value_of 1700000200000) example_member unrepresentable_history
             = Inl e
          \<and> generateHistoryLines (time_value_of 1700086400000) example_member unrepresentable_history
             = Inl e
          \<and> generateHistoryFile (time_value_of 1700000200000) example_member unrepresentable_history
             = Inl e
          \<and> generateHistoryFile (time_value_of 1700086400000) example_member unrepresentable_history
             = Inl e)
   \<and> \<not> in_date_range 8640000000000001"
  using generateHistoryFile_deterministic
          [where h = example_history and now_a = "time_value_of 1700000200000"
             and now_b = "time_value_of 1700086400000" and usr = example_member]
        generateHistoryFile_deterministic
          [where h = unrepresentable_history and now_a = "time_value_of 1700000200000"
             and now_b = "time_value_of 1700086400000" and usr = example_member]
  by (simp add: example_history_def unrepresentable_history_def in_date_range_def)

section \<open>Verification: cooldowns\<close>

lemma checkCooldown_entry:
  "checkCooldown cds now u c =
     (case cooldown_entry cds u c of
        None \<Rightarrow> 0
      | Some e \<Rightarrow> if now < e then \<lceil>real_of_int (e - now) / 1000\<rceil> else 0)"
  by (simp add: checkCooldown_def cooldown_entry_def split: option.splits)

lemma cooldown_entry_setCooldown:
  "cooldown_entry (cooldowns (setCooldown t u c st)) u' c' =
     (if u' = u \<and> c' = c then Some (t + 3000) else cooldown_entry (cooldowns st) u' c')"
  by (cases "map_of (cooldowns st) u")
     (simp_all add: setCooldown_def cooldown_entry_def Let_def update_conv' COOLDOWN_DURATION_def)

lemma delete_empty_lookup:
  "AList.delete c m = [] \<Longrightarrow> c' \<noteq> c \<Longrightarrow> map_of m c' = None"
proof -
  assume a: "AList.delete c m = []" and b: "c' \<noteq> c"
  have "map_of (AList.delete c m) c' = map_of m c'"
    using b by (simp add: delete_conv')
  with a show ?thesis by simp
qed

lemma cooldown_entry_cooldownTimeout:
  "cooldown_entry (cooldownTimeout u c cds) u' c' =
     (if u' = u \<and> c' = c then None else cooldown_entry cds u' c')"
proof (cases "map_of cds u")
  case None
  then show ?thesis
    by (auto simp: cooldownTimeout_def cooldown_entry_def)
next
  case (Some m)
  show ?thesis
  proof (cases "AList.delete c m = []")
    case True
    with Some show ?thesis
      by (auto simp: cooldownTimeout_def cooldown_entry_def Let_def delete_conv'
          dest: delete_empty_lookup)
  next
    case False
    with Some show ?thesis
      by (auto simp: cooldownTimeout_def cooldown_entry_def Let_def delete_conv' update_conv')
  qed
qed

lemma ceiling_thousandths_pos: "0 < r \<Longrightarrow> 1 \<le> \<lceil>real_of_int r / 1000\<rceil>"
  by (simp add: one_le_ceiling)

lemma ceiling_thousandths_le3: "r \<le> 3000 \<Longrightarrow> \<lceil>real_of_int r / 1000\<rceil> \<le> 3"
  by (simp add: ceiling_le_iff)

text \<open>
  C10. \<open>checkCooldown\<close> returns 0 when the map holds no expiration time for the pair, and
  when the stored expiration time is not after the clock reading. Otherwise it returns the
  ceiling of the remaining milliseconds over 1000, which is at least 1. \<open>setCooldown\<close> at
  the clock reading \<open>t\<close> stores \<open>t + 3000\<close> for its pair, so that a check at a clock
  reading that is not before \<open>t\<close> returns at most 3, and it leaves the entry and the check
  of every other pair as they were; so does the timer callback it schedules.
\<close>

theorem cooldown_check_and_set:
  "(cooldown_entry cds u c = None \<longrightarrow> checkCooldown cds now u c = 0)
   \<and> (cooldown_entry cds u c = Some e \<and> e \<le> now \<longrightarrow> checkCooldown cds now u c = 0)
   \<and> (cooldown_entry cds u c = Some e \<and> now < e \<longrightarrow>
        checkCooldown cds now u c = \<lceil>real_of_int (e - now) / 1000\<rceil>
        \<and> 1 \<le> checkCooldown cds now u c)
   \<and> cooldown_entry (cooldowns (setCooldown t u c st)) u c = Some (t + 3000)
   \<and> (t \<le> now \<longrightarrow> checkCooldown (cooldowns (setCooldown t u c st)) now u c \<le> 3)
   \<and> ((u', c') \<noteq> (u, c) \<longrightarrow>
        cooldown_entry (cooldowns (setCooldown t u c st)) u' c' = cooldown_entry (cooldowns st) u' c'
        \<and> checkCooldown (cooldowns (setCooldown t u c st)) now u' c'
            = checkCooldown (cooldowns st) now u' c'
        \<and> cooldown_entry (cooldownTimeout u c cds) u' c' = cooldown_entry cds u' c')"
proof -
  have 1: "cooldown_entry cds u c = None \<longrightarrow> checkCooldown cds now u c = 0"
    by (simp add: checkCooldown_entry)
  have 2: "cooldown_entry cds u c = Some e \<and> e \<le> now \<longrightarrow> checkCooldown cds now u c = 0"
    by (simp add: checkCooldown_entry)
  have 3: "cooldown_entry cds u c = Some e \<and> now < e \<longrightarrow>
        checkCooldown cds now u c = \<lceil>real_of_int (e - now) / 1000\<rceil>
        \<and> 1 \<le> checkCooldown cds now u c"
    using ceiling_thousandths_pos [of "e - now"] by (simp add: checkCooldown_entry)
  have 4: "cooldown_entry (cooldowns (setCooldown t u c st)) u c = Some (t + 3000)"
    by (simp add: cooldown_entry_setCooldown)
  have 5: "t \<le> now \<longrightarrow> checkCooldown (cooldowns (setCooldown t u c st)) now u c \<le> 3"
    using ceiling_thousandths_le3 [of "t + 3000 - now"]
    by (simp add: checkCooldown_entry cooldown_entry_setCooldown)
  have 6: "(u', c') \<noteq> (u, c) \<longrightarrow>
        cooldown_entry (cooldowns (setCooldown t u c st)) u' c' = cooldown_entry (cooldowns st) u' c'
        \<and> checkCooldown (cooldowns (setCooldown t u c st)) now u' c'
            = checkCooldown (cooldowns st) now u' c'
        \<and> cooldown_entry (cooldownTimeout u c cds) u' c' = cooldown_entry cds u' c'"
    by (auto simp: checkCooldown_entry cooldown_entry_setCooldown cooldown_entry_cooldownTimeout)
  from 1 2 3 4 5 6 show ?thesis by blast
qed

theorem cooldown_check_and_set_witness:
  "cooldown_entry [(''7'', [(''points_add'', 3000)])] ''7'' ''points_remove'' = None
   \<and> checkCooldown [(''7'', [(''points_add'', 3000)])] 500 ''7'' ''points_remove'' = 0
   \<and> cooldown_entry [(''7'', [(''points_add'', 3000)])] ''7'' ''points_add'' = Some 3000
   \<and> (3000::int) \<le> 3000
   \<and> checkCooldown [(''7'', [(''points_add'', 3000)])] 3000 ''7'' ''points_add'' = 0
   \<and> (500::int) < 3000
   \<and> checkCooldown [(''7'', [(''points_add'', 3000)])] 500 ''7'' ''points_add'' = 3
   \<and> cooldown_entry (cooldowns (setCooldown 0 ''7'' ''points_add'' \<lparr>cooldowns = [], timers = []\<rparr>))
        ''7'' ''points_add'' = Some 3000
   \<and> (0::int) \<le> 500
   \<and> checkCooldown (cooldowns (setCooldown 0 ''7'' ''points_add'' \<lparr>cooldowns = [], timers = []\<rparr>))
        500 ''7'' ''points_add'' \<le> 3
   \<and> (''7'', ''points_remove'') \<noteq> (''7'', ''points_add'')
   \<and> cooldown_entry (cooldowns (setCooldown 0 ''7'' ''points_add'' \<lparr>cooldowns = [], timers = []\<rparr>))
        ''7'' ''points_remove'' = None
   \<and> checkCooldown (cooldowns (setCooldown 0 ''7'' ''points_add'' \<lparr>cooldowns = [], timers = []\<rparr>))
        500 ''7'' ''points_remove'' = 0
   \<and> cooldown_entry (cooldownTimeout ''7'' ''points_add'' [(''7'', [(''points_add'', 3000)])])
        ''7'' ''points_remove'' = None"
  using cooldown_check_and_set
          [where cds = "[(''7'', [(''points_add'', 3000)])]" and u = "''7''" and c = "''points_remove''"
             and now = 500 and e = 0 and t = 0 and st = "\<lparr>cooldowns = [], timers = []\<rparr>"
             and u' = "''7''" and c' = "''points_add''"]
        cooldown_check_and_set
          [where cds = "[(''7'', [(''points_add'', 3000)])]" and u = "''7''" and c = "''points_add''"
             and now = 3000 and e = 3000 and t = 0 and st = "\<lparr>cooldowns = [], timers = []\<rparr>"
             and u' = "''7''" and c' = "''points_remove''"]
        cooldown_check_and_set
          [where cds = "[(''7'', [(''points_add'', 3000)])]" and u = "''7''" and c = "''points_add''"
             and now = 500 and e = 3000 and t = 0 and st = "\<lparr>cooldowns = [], timers = []\<rparr>"
             and u' = "''7''" and c' = "''points_remove''"]
  by (simp add: cooldown_entry_def checkCooldown_def)

text \<open>
  The bound of 3 needs the clock not to have gone back: \<^verbatim>\<open>Date.now()\<close> is the wall clock,
  and a check whose reading is one millisecond before the reading of the \<open>setCooldown\<close>
  that stored the entry returns 4.
\<close>

theorem checkCooldown_above_three_counterexample:
  "cooldown_entry (cooldowns (setCooldown 1000 ''7'' ''points_add'' \<lparr>cooldowns = [], timers = []\<rparr>))
     ''7'' ''points_add'' = Some 4000
   \<and> (999::int) < 4000
   \<and> checkCooldown (cooldowns (setCooldown 1000 ''7'' ''points_add'' \<lparr>cooldowns = [], timers = []\<rparr>))
        999 ''7'' ''points_add'' = 4
   \<and> \<not> checkCooldown (cooldowns (setCooldown 1000 ''7'' ''points_add'' \<lparr>cooldowns = [], timers = []\<rparr>))
          999 ''7'' ''points_add'' \<le> 3"
  by (simp add: setCooldown_def cooldown_entry_def checkCooldown_def COOLDOWN_DURATION_def)

text \<open>
  The timer that \<open>setCooldown\<close> schedules removes whatever the pair holds when it fires,
  also an expiration time stored by a later \<open>setCooldown\<close>. After a cooldown set at 0 and
  one set at 1400 for the same pair, the first timer fires at 3000 and removes the entry
  that runs until 4400: a check at 4350 returns 0 where the map held 4400 before.
\<close>

lemma stale_timer_removes_newer_cooldown:
  "cooldown_entry
     (cooldowns (setCooldown 1400 ''7'' ''points_add''
        (setCooldown 0 ''7'' ''points_add'' \<lparr>cooldowns = [], timers = []\<rparr>)))
     ''7'' ''points_add'' = Some 4400"
  "timers (setCooldown 1400 ''7'' ''points_add''
        (setCooldown 0 ''7'' ''points_add'' \<lparr>cooldowns = [], timers = []\<rparr>))
     = [(3000, ''7'', ''points_add''), (4400, ''7'', ''points_add'')]"
  "runTimers 3000
     (timers (setCooldown 1400 ''7'' ''points_add''
        (setCooldown 0 ''7'' ''points_add'' \<lparr>cooldowns = [], timers = []\<rparr>)))
     (cooldowns (setCooldown 1400 ''7'' ''points_add''
        (setCooldown 0 ''7'' ''points_add'' \<lparr>cooldowns = [], timers = []\<rparr>)))
     = \<lparr>cooldowns = [], timers = [(4400, ''7'', ''points_add'')]\<rparr>"
  "checkCooldown
     (cooldowns (runTimers 3000
        (timers (setCooldown 1400 ''7'' ''points_add''
           (setCooldown 0 ''7'' ''points_add'' \<lparr>cooldowns = [], timers = []\<rparr>)))
        (cooldowns (setCooldown 1400 ''7'' ''points_add''
           (setCooldown 0 ''7'' ''points_add'' \<lparr>cooldowns = [], timers = []\<rparr>)))))
     4350 ''7'' ''points_add'' = 0"
  by (simp_all add: setCooldown_def cooldown_entry_def checkCooldown_def COOLDOWN_DURATION_def
      cooldownTimeout_def)

section \<open>Verification: the points command\<close>

lemma handleAdd_no_permission:
  "\<not> canManagePoints cfg (user_id (user i)) (user_id (opt_user i)) \<Longrightarrow>
   handleAdd cfg ch rpc tm i w =
     (NoPermission,
      reply ''<:error:1450781522545086599> **You do not have permission to add points.**'' w)"
  by (simp add: handleAdd_def Let_def)

lemma handleRemove_no_permission:
  "\<not> canManagePoints cfg (user_id (user i)) (user_id (opt_user i)) \<Longrightarrow>
   handleRemove cfg ch rpc tm i w =
     (NoPermission,
      reply ''<:error:1450781522545086599> **You do not have permission to remove points.**'' w)"
  by (simp add: handleRemove_def Let_def)

lemma handleAdd_self_rejected:
  "canManagePoints cfg (user_id (user i)) (user_id (opt_user i)) \<Longrightarrow>
   user_id (user i) = user_id (opt_user i) \<Longrightarrow> \<not> allowSelfAdd (points cfg) \<Longrightarrow>
   handleAdd cfg ch rpc tm i w =
     (SelfRejected,
      reply ''<:error:1450781522545086599> **You cannot add points to yourself.**'' w)"
  by (simp add: handleAdd_def Let_def)

lemma handleRemove_self_rejected:
  "canManagePoints cfg (user_id (user i)) (user_id (opt_user i)) \<Longrightarrow>
   user_id (user i) = user_id (opt_user i) \<Longrightarrow> \<not> allowSelfAdd (points cfg) \<Longrightarrow>
   handleRemove cfg ch rpc tm i w =
     (SelfRejected,
      reply ''<:error:1450781522545086599> **You cannot remove points from yourself.**'' w)"
  by (simp add: handleRemove_def Let_def)

lemma handleAdd_past_checks:
  "canManagePoints cfg (user_id (user i)) (user_id (opt_user i)) \<Longrightarrow>
   user_id (user i) \<noteq> user_id (opt_user i) \<or> allowSelfAdd (points cfg) \<Longrightarrow>
   \<not> rejected (fst (handleAdd cfg ch rpc tm i w))"
  by (auto simp: handleAdd_def Let_def rejected_def split: prod.splits sum.splits)

lemma handleRemove_past_checks:
  "canManagePoints cfg (user_id (user i)) (user_id (opt_user i)) \<Longrightarrow>
   user_id (user i) \<noteq> user_id (opt_user i) \<or> allowSelfAdd (points cfg) \<Longrightarrow>
   \<not> rejected (fst (handleRemove cfg ch rpc tm i w))"
  by (auto simp: handleRemove_def Let_def rejected_def split: prod.splits sum.splits)

lemma audit_emissions_append:
  "audit_emissions (xs @ ys) = audit_emissions xs @ audit_emissions ys"
  by (simp add: audit_emissions_def)

lemma audit_emissions_Cons:
  "audit_emissions (e # es) = (case e of ChannelSend m \<Rightarrow> [m] | _ \<Rightarrow> []) @ audit_emissions es"
  by (simp add: audit_emissions_def)

lemma audit_emissions_Nil: "audit_emissions [] = []"
  by (simp add: audit_emissions_def)

lemma audit_emissions_sendAuditLog:
  "audit_emissions (sendAuditLog ch d now out) =
     audit_emissions out @ (if ch = TextChannel then [auditMessage d now] else [])"
  by (cases ch)
     (simp_all add: sendAuditLog_def audit_emissions_append audit_emissions_Cons
        audit_emissions_Nil)

lemma handleAdd_audit_emission:
  assumes "fst (handleAdd cfg ch rpc tm i w) = Completed"
  shows "audit_emissions (outbox (snd (handleAdd cfg ch rpc tm i w))) =
     audit_emissions (outbox w)
     @ (if ch = TextChannel
        then [auditMessage \<lparr>log_type = ADD, targetUser = opt_user i, log_amount = opt_amount i,
                            executor = user i\<rparr> (at_log tm)]
        else [])"
  using assms
  by (auto simp: handleAdd_def Let_def editReply_def deferReply_def
        audit_emissions_sendAuditLog audit_emissions_append audit_emissions_Cons
        audit_emissions_Nil
      split: prod.splits sum.splits if_splits)

lemma handleRemove_audit_emission:
  assumes "fst (handleRemove cfg ch rpc tm i w) = Completed"
  shows "audit_emissions (outbox (snd (handleRemove cfg ch rpc tm i w))) =
     audit_emissions (outbox w)
     @ (if ch = TextChannel
        then [auditMessage \<lparr>log_type = REMOVE, targetUser = opt_user i, log_amount = opt_amount i,
                            executor = user i\<rparr> (at_log tm)]
        else [])"
  using assms
  by (auto simp: handleRemove_def Let_def editReply_def deferReply_def
        audit_emissions_sendAuditLog audit_emissions_append audit_emissions_Cons
        audit_emissions_Nil
      split: prod.splits sum.splits if_splits)

lemma example_add_completes:
  "fst (handleAdd config TextChannel (modify_points 1200) example_times
          (award_interaction r) (example_world l)) = Completed"
  by (simp add: handleAdd_def Let_def award_interaction_def example_admin_def
      example_member_def example_world_def example_times_def config_def canManagePoints_def
      isSuperAdmin_def checkCooldown_def addPoints_def modify_points_def addPoints_result_def
      editReply_def deferReply_def)

lemma example_remove_completes:
  "5 \<le> balance_of l ''42'' \<Longrightarrow>
   fst (handleRemove config TextChannel (modify_points 1200) example_times
          (award_interaction r) (example_world l)) = Completed"
  by (simp add: handleRemove_def Let_def award_interaction_def example_admin_def
      example_member_def example_world_def example_times_def config_def canManagePoints_def
      isSuperAdmin_def checkCooldown_def removePoints_def modify_points_def
      removePoints_result_def editReply_def deferReply_def)

text \<open>
  C7. When a handler completes, what it adds to the log channel is at most one message, and
  that message is built from the action type, the target user, the amount, the executor and
  the clock reading alone. Two completed runs that agree on these emit the same, whatever
  the stores, the remote calls (and so the balances before and after), the reasons, the
  cooldowns and the configurations were.
\<close>

theorem audit_log_independent_of_balance_and_reason:
  assumes "user i1 = user i2" and "opt_user i1 = opt_user i2"
    and "opt_amount i1 = opt_amount i2" and "at_log tm1 = at_log tm2"
    and "audit_emissions (outbox w1) = audit_emissions (outbox w2)"
  shows "(fst (handleAdd cfg1 ch rpc1 tm1 i1 w1) = Completed
          \<and> fst (handleAdd cfg2 ch rpc2 tm2 i2 w2) = Completed \<longrightarrow>
            audit_emissions (outbox (snd (handleAdd cfg1 ch rpc1 tm1 i1 w1)))
              = audit_emissions (outbox w1)
                @ (if ch = TextChannel
                   then [auditMessage \<lparr>log_type = ADD, targetUser = opt_user i1,
                           log_amount = opt_amount i1, executor = user i1\<rparr> (at_log tm1)]
                   else [])
          \<and> audit_emissions (outbox (snd (handleAdd cfg2 ch rpc2 tm2 i2 w2)))
              = audit_emissions (outbox (snd (handleAdd cfg1 ch rpc1 tm1 i1 w1))))
       \<and> (fst (handleRemove cfg1 ch rpc1 tm1 i1 w1) = Completed
          \<and> fst (handleRemove cfg2 ch rpc2 tm2 i2 w2) = Completed \<longrightarrow>
            audit_emissions (outbox (snd (handleRemove cfg1 ch rpc1 tm1 i1 w1)))
              = audit_emissions (outbox w1)
                @ (if ch = TextChannel
                   then [auditMessage \<lparr>log_type = REMOVE, targetUser = opt_user i1,
                           log_amount = opt_amount i1, executor = user i1\<rparr> (at_log tm1)]
                   else [])
          \<and> audit_emissions (outbox (snd (handleRemove cfg2 ch rpc2 tm2 i2 w2)))
              = audit_emissions (outbox (snd (handleRemove cfg1 ch rpc1 tm1 i1 w1))))"
proof (intro conjI impI)
  assume c: "fst (handleAdd cfg1 ch rpc1 tm1 i1 w1) = Completed
             \<and> fst (handleAdd cfg2 ch rpc2 tm2 i2 w2) = Completed"
  from c show "audit_emissions (outbox (snd (handleAdd cfg1 ch rpc1 tm1 i1 w1)))
              = audit_emissions (outbox w1)
                @ (if ch = TextChannel
                   then [auditMessage \<lparr>log_type = ADD, targetUser = opt_user i1,
                           log_amount = opt_amount i1, executor = user i1\<rparr> (at_log tm1)]
                   else [])"
    by (simp add: handleAdd_audit_emission)
  from c assms show "audit_emissions (outbox (snd (handleAdd cfg2 ch rpc2 tm2 i2 w2)))
              = audit_emissions (outbox (snd (handleAdd cfg1 ch rpc1 tm1 i1 w1)))"
    by (simp add: handleAdd_audit_emission)
next
  assume c: "fst (handleRemove cfg1 ch rpc1 tm1 i1 w1) = Completed
             \<and> fst (handleRemove cfg2 ch rpc2 tm2 i2 w2) = Completed"
  from c show "audit_emissions (outbox (snd (handleRemove cfg1 ch rpc1 tm1 i1 w1)))
              = audit_emissions (outbox w1)
                @ (if ch = TextChannel
                   then [auditMessage \<lparr>log_type = REMOVE, targetUser = opt_user i1,
                           log_amount = opt_amount i1, executor = user i1\<rparr> (at_log tm1)]
                   else [])"
    by (simp add: handleRemove_audit_emission)
  from c assms show "audit_emissions (outbox (snd (handleRemove cfg2 ch rpc2 tm2 i2 w2)))
              = audit_emissions (outbox (snd (handleRemove cfg1 ch rpc1 tm1 i1 w1)))"
    by (simp add: handleRemove_audit_emission)
qed

theorem audit_log_independent_of_balance_and_reason_witness:
  "fst (handleAdd config TextChannel (modify_points 1200) example_times
          (award_interaction None) (example_world example_ledger)) = Completed
   \<and> fst (handleAdd config TextChannel (modify_points 1200) example_times
          (award_interaction (Some ''bonus'')) (example_world rich_ledger)) = Completed
   \<and> audit_emissions (outbox (snd (handleAdd config TextChannel (modify_points 1200) example_times
          (award_interaction None) (example_world example_ledger))))
       = [auditMessage \<lparr>log_type = ADD, targetUser = example_member, log_amount = 5,
            executor = example_admin\<rparr> 1400]
   \<and> audit_emissions (outbox (snd (handleAdd config TextChannel (modify_points 1200) example_times
          (award_interaction (Some ''bonus'')) (example_world rich_ledger))))
       = audit_emissions (outbox (snd (handleAdd config TextChannel (modify_points 1200) example_times
          (award_interaction None) (example_world example_ledger))))
   \<and> fst (handleRemove config TextChannel (modify_points 1200) example_times
          (award_interaction None) (example_world example_ledger)) = Completed
   \<and> fst (handleRemove config TextChannel (modify_points 1200) example_times
          (award_interaction (Some ''bonus'')) (example_world rich_ledger)) = Completed
   \<and> audit_emissions (outbox (snd (handleRemove config TextChannel (modify_points 1200) example_times
          (award_interaction None) (example_world example_ledger))))
       = [auditMessage \<lparr>log_type = REMOVE, targetUser = example_member, log_amount = 5,
            executor = example_admin\<rparr> 1400]
   \<and> audit_emissions (outbox (snd (handleRemove config TextChannel (modify_points 1200) example_times
          (award_interaction (Some ''bonus'')) (example_world rich_ledger))))
       = audit_emissions (outbox (snd (handleRemove config TextChannel (modify_points 1200) example_times
          (award_interaction None) (example_world example_ledger))))"
proof -
  have a1: "fst (handleAdd config TextChannel (modify_points 1200) example_times
          (award_interaction None) (example_world example_ledger)) = Completed"
    by (rule example_add_completes)
  have a2: "fst (handleAdd config TextChannel (modify_points 1200) example_times
          (award_interaction (Some ''bonus'')) (example_world rich_ledger)) = Completed"
    by (rule example_add_completes)
  have r1: "fst (handleRemove config TextChannel (modify_points 1200) example_times
          (award_interaction None) (example_world example_ledger)) = Completed"
    by (rule example_remove_completes) (simp add: balance_of_def example_ledger_def)
  have r2: "fst (handleRemove config TextChannel (modify_points 1200) example_times
          (award_interaction (Some ''bonus'')) (example_world rich_ledger)) = Completed"
    by (rule example_remove_completes) (simp add: balance_of_def rich_ledger_def)
  have e: "user (award_interaction None) = user (award_interaction (Some ''bonus''))"
    "opt_user (award_interaction None) = opt_user (award_interaction (Some ''bonus''))"
    "opt_amount (award_interaction None) = opt_amount (award_interaction (Some ''bonus''))"
    "at_log example_times = at_log example_times"
    "audit_emissions (outbox (example_world example_ledger))
       = audit_emissions (outbox (example_world rich_ledger))"
    by (simp_all add: award_interaction_def example_world_def)
  have f: "user (award_interaction None) = example_admin"
    "opt_user (award_interaction None) = example_member"
    "opt_amount (award_interaction None) = 5"
    "at_log example_times = 1400"
    "audit_emissions (outbox (example_world example_ledger)) = []"
    by (simp_all add: award_interaction_def example_world_def example_times_def
        audit_emissions_Nil)
  from audit_log_independent_of_balance_and_reason
         [OF e, of config TextChannel "modify_points 1200" config "modify_points 1200"]
       a1 a2 r1 r2
  show ?thesis
    unfolding f by simp
qed

text \<open>
  C9. With \<open>allowSelfAdd\<close> off, a handler called by a user on themselves returns at its
  permission check or at its self-action check: it sends one reply and leaves the store and
  the cooldowns as they were, whatever the remote call, the log channel and the clock are.
  A super admin passes \<open>canManagePoints\<close> and is stopped by the self-action check.
\<close>

theorem self_action_blocked_for_everyone:
  assumes "\<not> allowSelfAdd (points cfg)" and "user_id (opt_user i) = user_id (user i)"
  shows "(\<exists>out msg. rejected out
            \<and> (\<forall>ch rpc tm. handleAdd cfg ch rpc tm i w = (out, w\<lparr>outbox := outbox w @ [Reply msg]\<rparr>)))
       \<and> (\<exists>out msg. rejected out
            \<and> (\<forall>ch rpc tm. handleRemove cfg ch rpc tm i w = (out, w\<lparr>outbox := outbox w @ [Reply msg]\<rparr>)))
       \<and> (isSuperAdmin cfg (user_id (user i)) \<longrightarrow>
            canManagePoints cfg (user_id (user i)) (user_id (opt_user i))
            \<and> (\<forall>ch rpc tm. fst (handleAdd cfg ch rpc tm i w) = SelfRejected
                          \<and> fst (handleRemove cfg ch rpc tm i w) = SelfRejected))"
proof -
  have eq: "user_id (user i) = user_id (opt_user i)"
    using assms(2) by simp
  show ?thesis
  proof (cases "canManagePoints cfg (user_id (user i)) (user_id (opt_user i))")
    case False
    then have ns: "\<not> isSuperAdmin cfg (user_id (user i))"
      by (auto simp: canManagePoints_def)
    have r: "rejected NoPermission"
      by (simp add: rejected_def)
    have a: "\<forall>ch rpc tm. handleAdd cfg ch rpc tm i w
          = (NoPermission, w\<lparr>outbox := outbox w @
              [Reply ''<:error:1450781522545086599> **You do not have permission to add points.**'']\<rparr>)"
      by (simp add: handleAdd_no_permission [OF False] reply_def)
    have b: "\<forall>ch rpc tm. handleRemove cfg ch rpc tm i w
          = (NoPermission, w\<lparr>outbox := outbox w @
              [Reply ''<:error:1450781522545086599> **You do not have permission to remove points.**'']\<rparr>)"
      by (simp add: handleRemove_no_permission [OF False] reply_def)
    from ns r a b show ?thesis by blast
  next
    case True
    have r: "rejected SelfRejected"
      by (simp add: rejected_def)
    have a: "\<forall>ch rpc tm. handleAdd cfg ch rpc tm i w
          = (SelfRejected, w\<lparr>outbox := outbox w @
              [Reply ''<:error:1450781522545086599> **You cannot add points to yourself.**'']\<rparr>)"
      by (simp add: handleAdd_self_rejected [OF True eq assms(1)] reply_def)
    have b: "\<forall>ch rpc tm. handleRemove cfg ch rpc tm i w
          = (SelfRejected, w\<lparr>outbox := outbox w @
              [Reply ''<:error:1450781522545086599> **You cannot remove points from yourself.**'']\<rparr>)"
      by (simp add: handleRemove_self_rejected [OF True eq assms(1)] reply_def)
    have c: "\<forall>ch rpc tm. fst (handleAdd cfg ch rpc tm i w) = SelfRejected
                          \<and> fst (handleRemove cfg ch rpc tm i w) = SelfRejected"
      using a b by simp
    from True r a b c show ?thesis by blast
  qed
qed

theorem self_action_blocked_for_everyone_witness:
  "\<not> allowSelfAdd (points config)
   \<and> user_id (opt_user (self_interaction example_admin)) = user_id (user (self_interaction example_admin))
   \<and> isSuperAdmin config (user_id (user (self_interaction example_admin)))
   \<and> canManagePoints config (user_id (user (self_interaction example_admin)))
        (user_id (opt_user (self_interaction example_admin)))
   \<and> fst (handleAdd config TextChannel (modify_points 1200) example_times
        (self_interaction example_admin) (example_world example_ledger)) = SelfRejected
   \<and> fst (handleRemove config TextChannel (modify_points 1200) example_times
        (self_interaction example_admin) (example_world example_ledger)) = SelfRejected
   \<and> database (snd (handleAdd config TextChannel (modify_points 1200) example_times
        (self_interaction example_admin) (example_world example_ledger))) = example_ledger
   \<and> database (snd (handleRemove config TextChannel (modify_points 1200) example_times
        (self_interaction example_admin) (example_world example_ledger))) = example_ledger"
proof -
  have 1: "\<not> allowSelfAdd (points config)"
    by (simp add: config_def)
  have 2: "user_id (opt_user (self_interaction example_admin))
            = user_id (user (self_interaction example_admin))"
    by (simp add: self_interaction_def)
  have 3: "isSuperAdmin config (user_id (user (self_interaction example_admin)))"
    by (simp add: isSuperAdmin_def config_def self_interaction_def example_admin_def)
  have 4: "database (example_world example_ledger) = example_ledger"
    by (simp add: example_world_def)
  from self_action_blocked_for_everyone
         [OF 1 2, of "example_world example_ledger"] 1 2 3 4
  show ?thesis
    by (metis (no_types, lifting) fst_conv snd_conv world.select_convs(1) world.surjective
        world.update_convs(3))
qed

text \<open>
  C8, as the code has it. For a point manager or super admin who names themselves as the
  target, the add handler and the remove handler return at the permission check or the
  self-action check exactly when \<open>allowSelfAdd\<close> is off; both read this one flag. A user who
  is neither is refused by the permission check, whatever the flag.
\<close>

theorem self_action_single_flag:
  assumes "user_id (opt_user i) = user_id (user i)"
  shows "(isPointManager cfg (user_id (user i)) \<longrightarrow>
            (rejected (fst (handleAdd cfg ch rpc tm i w)) \<longleftrightarrow> \<not> allowSelfAdd (points cfg))
          \<and> (rejected (fst (handleRemove cfg ch rpc tm i w)) \<longleftrightarrow> \<not> allowSelfAdd (points cfg)))
       \<and> (\<not> isPointManager cfg (user_id (user i)) \<longrightarrow>
            fst (handleAdd cfg ch rpc tm i w) = NoPermission
          \<and> fst (handleRemove cfg ch rpc tm i w) = NoPermission)"
proof (intro conjI impI)
  assume m: "isPointManager cfg (user_id (user i))"
  have eq: "user_id (user i) = user_id (opt_user i)"
    using assms by simp
  show "rejected (fst (handleAdd cfg ch rpc tm i w)) \<longleftrightarrow> \<not> allowSelfAdd (points cfg)"
  proof (cases "allowSelfAdd (points cfg)")
    case True
    with m have "canManagePoints cfg (user_id (user i)) (user_id (opt_user i))"
      unfolding eq [symmetric] by (simp add: canManagePoints_def)
    with True show ?thesis
      by (simp add: handleAdd_past_checks)
  next
    case False
    have "rejected (fst (handleAdd cfg ch rpc tm i w))"
    proof (cases "canManagePoints cfg (user_id (user i)) (user_id (opt_user i))")
      case True
      show ?thesis
        unfolding handleAdd_self_rejected [OF True eq False] by (simp add: rejected_def)
    next
      case no: False
      show ?thesis
        unfolding handleAdd_no_permission [OF no] by (simp add: rejected_def)
    qed
    with False show ?thesis by simp
  qed
  show "rejected (fst (handleRemove cfg ch rpc tm i w)) \<longleftrightarrow> \<not> allowSelfAdd (points cfg)"
  proof (cases "allowSelfAdd (points cfg)")
    case True
    with m have "canManagePoints cfg (user_id (user i)) (user_id (opt_user i))"
      unfolding eq [symmetric] by (simp add: canManagePoints_def)
    with True show ?thesis
      by (simp add: handleRemove_past_checks)
  next
    case False
    have "rejected (fst (handleRemove cfg ch rpc tm i w))"
    proof (cases "canManagePoints cfg (user_id (user i)) (user_id (opt_user i))")
      case True
      show ?thesis
        unfolding handleRemove_self_rejected [OF True eq False] by (simp add: rejected_def)
    next
      case no: False
      show ?thesis
        unfolding handleRemove_no_permission [OF no] by (simp add: rejected_def)
    qed
    with False show ?thesis by simp
  qed
next
  assume "\<not> isPointManager cfg (user_id (user i))"
  then have n: "\<not> canManagePoints cfg (user_id (user i)) (user_id (opt_user i))"
    by (simp add: canManagePoints_def isPointManager_def)
  show "fst (handleAdd cfg ch rpc tm i w) = NoPermission"
    by (simp add: handleAdd_no_permission [OF n])
  show "fst (handleRemove cfg ch rpc tm i w) = NoPermission"
    by (simp add: handleRemove_no_permission [OF n])
qed

theorem self_action_single_flag_witness:
  "user_id (opt_user (self_interaction example_manager)) = user_id (user (self_interaction example_manager))
   \<and> isPointManager config (user_id (user (self_interaction example_manager)))
   \<and> \<not> allowSelfAdd (points config)
   \<and> rejected (fst (handleAdd config TextChannel (modify_points 1200) example_times
         (self_interaction example_manager) (example_world example_ledger)))
   \<and> rejected (fst (handleRemove config TextChannel (modify_points 1200) example_times
         (self_interaction example_manager) (example_world example_ledger)))
   \<and> fst (handleAdd config TextChannel (modify_points 1200) example_times
         (self_interaction example_manager) (example_world example_ledger)) = NoPermission
   \<and> fst (handleRemove config TextChannel (modify_points 1200) example_times
         (self_interaction example_manager) (example_world example_ledger)) = NoPermission
   \<and> isPointManager config_self_allowed (user_id (user (self_interaction example_manager)))
   \<and> allowSelfAdd (points config_self_allowed)
   \<and> \<not> rejected (fst (handleAdd config_self_allowed TextChannel (modify_points 1200) example_times
         (self_interaction example_manager) (example_world example_ledger)))
   \<and> \<not> rejected (fst (handleRemove config_self_allowed TextChannel (modify_points 1200) example_times
         (self_interaction example_manager) (example_world example_ledger)))
   \<and> user_id (opt_user (self_interaction example_member)) = user_id (user (self_interaction example_member))
   \<and> \<not> isPointManager config_self_allowed (user_id (user (self_interaction example_member)))
   \<and> fst (handleAdd config_self_allowed TextChannel (modify_points 1200) example_times
         (self_interaction example_member) (example_world example_ledger)) = NoPermission
   \<and> fst (handleRemove config_self_allowed TextChannel (modify_points 1200) example_times
         (self_interaction example_member) (example_world example_ledger)) = NoPermission"
proof -
  have s1: "user_id (opt_user (self_interaction example_manager))
             = user_id (user (self_interaction example_manager))"
    and s2: "user_id (opt_user (self_interaction example_member))
             = user_id (user (self_interaction example_member))"
    by (simp_all add: self_interaction_def)
  have m1: "isPointManager config (user_id (user (self_interaction example_manager)))"
    and m2: "isPointManager config_self_allowed (user_id (user (self_interaction example_manager)))"
    and m3: "\<not> isPointManager config_self_allowed (user_id (user (self_interaction example_member)))"
    by (simp_all add: isPointManager_def isSuperAdmin_def config_def config_self_allowed_def
        self_interaction_def example_manager_def example_member_def)
  have f1: "\<not> allowSelfAdd (points config)"
    and f2: "allowSelfAdd (points config_self_allowed)"
    by (simp_all add: config_def config_self_allowed_def)
  have n: "\<not> canManagePoints config (user_id (user (self_interaction example_manager)))
              (user_id (opt_user (self_interaction example_manager)))"
    by (simp add: canManagePoints_def isPointManager_def isSuperAdmin_def config_def
        self_interaction_def example_manager_def)
  have o1: "fst (handleAdd config TextChannel (modify_points 1200) example_times
         (self_interaction example_manager) (example_world example_ledger)) = NoPermission"
    by (simp add: handleAdd_no_permission [OF n])
  have o2: "fst (handleRemove config TextChannel (modify_points 1200) example_times
         (self_interaction example_manager) (example_world example_ledger)) = NoPermission"
    by (simp add: handleRemove_no_permission [OF n])
  from self_action_single_flag
         [OF s1, of config TextChannel "modify_points 1200" example_times
            "example_world example_ledger"]
       self_action_single_flag
         [OF s1, of config_self_allowed TextChannel "modify_points 1200" example_times
            "example_world example_ledger"]
       self_action_single_flag
         [OF s2, of config_self_allowed TextChannel "modify_points 1200" example_times
            "example_world example_ledger"]
       s1 s2 m1 m2 m3 f1 f2 o1 o2
  show ?thesis by blast
qed

text \<open>
  C8, as claimed for every executor, fails: with \<open>allowSelfAdd\<close> on, a user who is neither
  point manager nor super admin and names themselves is still refused by both handlers, at
  the permission check.
\<close>

theorem self_action_every_executor_counterexample:
  "user_id (opt_user (self_interaction example_member)) = user_id (user (self_interaction example_member))
   \<and> allowSelfAdd (points config_self_allowed)
   \<and> fst (handleAdd config_self_allowed TextChannel (modify_points 1200) example_times
         (self_interaction example_member) (example_world example_ledger)) = NoPermission
   \<and> fst (handleRemove config_self_allowed TextChannel (modify_points 1200) example_times
         (self_interaction example_member) (example_world example_ledger)) = NoPermission
   \<and> \<not> (rejected (fst (handleAdd config_self_allowed TextChannel (modify_points 1200) example_times
               (self_interaction example_member) (example_world example_ledger)))
          \<longleftrightarrow> \<not> allowSelfAdd (points config_self_allowed))
   \<and> \<not> (rejected (fst (handleRemove config_self_allowed TextChannel (modify_points 1200) example_times
               (self_interaction example_member) (example_world example_ledger)))
          \<longleftrightarrow> \<not> allowSelfAdd (points config_self_allowed))"
  by (simp add: handleAdd_def handleRemove_def Let_def self_interaction_def example_member_def
      config_self_allowed_def config_def canManagePoints_def isSuperAdmin_def isPointManager_def
      rejected_def)

section \<open>Examples\<close>

text \<open>Known values of the runtime's date format.\<close>

lemma toISOString_examples:
  "toISOString (newDate 0) = Inr ''1970-01-01T00:00:00.000Z''"
  "toISOString (newDate 951782400000) = Inr ''2000-02-29T00:00:00.000Z''"
  "toISOString (DateValue (time_value_of 1700000000123)) = Inr ''2023-11-14T22:13:20.123Z''"
  "toISOString (newDate 8640000000000001) = Inl (RangeError ''Invalid time value'')"
  "toISOString (newDate (- 8640000000000001)) = Inl (RangeError ''Invalid time value'')"
  by code_simp+

text \<open>Known values of the runtime's printing of numbers.\<close>

lemma String_int_examples:
  "String_int 30 = ''30''"
  "String_int (- 20) = ''-20''"
  "String_int 9007199254740993 = ''9007199254740992''"
  "String_int 18446744073709551616 = ''18446744073709552000''"
  "String_int 1000000000000000000000 = ''1e+21''"
  "String_int 1180591620717411303424 = ''1.1805916207174113e+21''"
  "String_int (- 100000000000000000000000) = ''-1e+23''"
  by code_simp+

text \<open>
  The end-to-end scenario: from an empty ledger, add 50 with the reason ``bonus'', then
  remove 20 without a reason. The balance is 30, the history comes newest first, and the
  statement closes with 30.
\<close>

lemma end_to_end_scenario:
  "snd (removePoints (modify_points 1700000100000) ''42'' ''1306580945419370621'' 20 False None
     (snd (addPoints (modify_points 1700000000123) ''42'' ''1306580945419370621'' 50
        (Some ''bonus'') \<lparr>staff_points = [], points_history = []\<rparr>)))
   = \<lparr>staff_points = [(''42'', 30)],
      points_history =
        [\<lparr>before_points = 0, after_points = 50, record_id = 0, target_user_id = ''42'',
          action_by_user_id = ''1306580945419370621'', action_type = ADD, amount = 50,
          reason = Some ''bonus'', created_at = 1700000000123\<rparr>,
         \<lparr>before_points = 50, after_points = 30, record_id = 1, target_user_id = ''42'',
          action_by_user_id = ''1306580945419370621'', action_type = REMOVE, amount = 20,
          reason = None, created_at = 1700000100000\<rparr>]\<rparr>"
  "getUserPoints ledger_staff_points ''42''
     \<lparr>staff_points = [(''42'', 30)],
      points_history =
        [\<lparr>before_points = 0, after_points = 50, record_id = 0, target_user_id = ''42'',
          action_by_user_id = ''1306580945419370621'', action_type = ADD, amount = 50,
          reason = Some ''bonus'', created_at = 1700000000123\<rparr>,
         \<lparr>before_points = 50, after_points = 30, record_id = 1, target_user_id = ''42'',
          action_by_user_id = ''1306580945419370621'', action_type = REMOVE, amount = 20,
          reason = None, created_at = 1700000100000\<rparr>]\<rparr>
   = Inr 30"
  "getPointsHistory ledger_points_history ''42''
     \<lparr>staff_points = [(''42'', 30)],
      points_history =
        [\<lparr>before_points = 0, after_points = 50, record_id = 0, target_user_id = ''42'',
          action_by_user_id = ''1306580945419370621'', action_type = ADD, amount = 50,
          reason = Some ''bonus'', created_at = 1700000000123\<rparr>,
         \<lparr>before_points = 50, after_points = 30, record_id = 1, target_user_id = ''42'',
          action_by_user_id = ''1306580945419370621'', action_type = REMOVE, amount = 20,
          reason = None, created_at = 1700000100000\<rparr>]\<rparr>
   = Inr [\<lparr>before_points = 50, after_points = 30, record_id = 1, target_user_id = ''42'',
           action_by_user_id = ''1306580945419370621'', action_type = REMOVE, amount = 20,
           reason = None, created_at = 1700000100000\<rparr>,
          \<lparr>before_points = 0, after_points = 50, record_id = 0, target_user_id = ''42'',
           action_by_user_id = ''1306580945419370621'', action_type = ADD, amount = 50,
           reason = Some ''bonus'', created_at = 1700000000123\<rparr>]"
  "generateHistoryFile (time_value_of 1700000200000) example_member example_history
   = Inr (join newline
       [''==================================================================='',
        ''                  OFFICIAL POINTS STATEMENT'',
        ''==================================================================='',
        ''USER     : member (ID: 42)'',
        ''GENERATED: 2023-11-14 22:16 UTC'',
        ''==================================================================='',
        ''DATE         TIME    ADMIN           ACTION      AMT    BALANCE'',
        ''-------------------------------------------------------------------'',
        ''2023-11-14   22:15   User_13065809   [REMOVE]       -20         30'',
        [],
        ''2023-11-14   22:13   User_13065809   [ADD]          +50         50'',
        ''                     Memo: bonus'',
        [],
        ''-------------------------------------------------------------------'',
        ''                     CLOSING BALANCE                   30'',
        ''==================================================================='',
        ''* This is an automated record.''])"
  by code_simp+

end
